theory Spec2Isabelle
  imports Main "HOL-Library.AList"
begin

section \<open>Strings of the plugin\<close>

text \<open>
  A JavaScript string is a sequence of UTF-16 code units; it is modelled as a list of
  natural numbers. \<open>ascii\<close> turns an ASCII literal into that form, and every other
  text of the source (the translated names) is written out by its code units.

  \<open>toLowerCase\<close> is modelled on the letters A to Z; every other code unit is left as
  it is. JavaScript also maps upper-case letters outside ASCII, which this model does
  not cover: the player names and blacklist entries it speaks about are ASCII-cased.
\<close>

type_synonym jsstring = "nat list"

definition ascii :: "string \<Rightarrow> jsstring" where
  "ascii s = map of_char s"

definition lowerUnit :: "nat \<Rightarrow> nat" where
  "lowerUnit u = (if 65 \<le> u \<and> u \<le> 90 then u + 32 else u)"

definition toLowerCase :: "jsstring \<Rightarrow> jsstring" where
  "toLowerCase s = map lowerUnit s"

text \<open>The white space and line terminators that \<open>String.prototype.trim\<close> removes.\<close>

definition isWhiteSpace :: "nat \<Rightarrow> bool" where
  "isWhiteSpace u =
     (u = 0x9 \<or> u = 0xA \<or> u = 0xB \<or> u = 0xC \<or> u = 0xD \<or> u = 0x20 \<or> u = 0xA0
      \<or> u = 0x1680 \<or> (0x2000 \<le> u \<and> u \<le> 0x200A) \<or> u = 0x2028 \<or> u = 0x2029
      \<or> u = 0x202F \<or> u = 0x205F \<or> u = 0x3000 \<or> u = 0xFEFF)"

definition trim :: "jsstring \<Rightarrow> jsstring" where
  "trim s = rev (dropWhile isWhiteSpace (rev (dropWhile isWhiteSpace s)))"

text \<open>\<open>s.split(',')\<close>: the pieces between the separators; never an empty list.\<close>

fun split :: "nat \<Rightarrow> jsstring \<Rightarrow> jsstring list" where
  "split sep [] = [[]]"
| "split sep (c # cs) =
     (if c = sep then [] # split sep cs
      else (case split sep cs of
              [] \<Rightarrow> [[c]]
            | w # ws \<Rightarrow> (c # w) # ws))"

text \<open>\<open>s.includes(p)\<close>: \<open>p\<close> occurs in \<open>s\<close> as a contiguous run.\<close>

fun includesStr :: "jsstring \<Rightarrow> jsstring \<Rightarrow> bool" where
  "includesStr [] p = (p = [])"
| "includesStr (c # cs) p = (take (length p) (c # cs) = p \<or> includesStr cs p)"

text \<open>
  The operator \<open>a || b\<close> on an optional string or number: a missing value, the empty
  string and zero are falsy and give the default.
\<close>

definition orString :: "jsstring option \<Rightarrow> jsstring \<Rightarrow> jsstring" where
  "orString v d = (case v of None \<Rightarrow> d | Some s \<Rightarrow> if s = [] then d else s)"

definition orNumber :: "int option \<Rightarrow> int \<Rightarrow> int" where
  "orNumber v d = (case v of None \<Rightarrow> d | Some n \<Rightarrow> if n = 0 then d else n)"

section \<open>Translation tables\<close>

text \<open>
  \<open>nameMap\<close> and \<open>legendRankMap\<close> of the source, entry by entry and in its order. A
  lookup reads the table's own entries; the properties an object literal inherits from
  its prototype are not keys of the model.
\<close>

definition nameMap :: "(jsstring \<times> jsstring) list" where
  "nameMap =
  [(ascii ''Unranked'', [0x83DC, 0x9E1F]),
   (ascii ''Bronze'', [0x9752, 0x94DC]),
   (ascii ''Silver'', [0x767D, 0x94F6]),
   (ascii ''Gold'', [0x9EC4, 0x91D1]),
   (ascii ''Platinum'', [0x767D, 0x91D1]),
   (ascii ''Diamond'', [0x94BB, 0x77F3]),
   (ascii ''Master'', [0x5927, 0x5E08]),
   (ascii ''Apex Predator'', [0x0041, 0x0070, 0x0065, 0x0078, 0x0020, 0x730E, 0x6740, 0x8005]),
   (ascii ''offline'', [0x79BB, 0x7EBF]),
   (ascii ''online'', [0x5728, 0x7EBF]),
   (ascii ''inLobby'', [0x5728, 0x5927, 0x5385]),
   (ascii ''in Lobby'', [0x5728, 0x5927, 0x5385]),
   (ascii ''In lobby'', [0x5728, 0x5927, 0x5385]),
   (ascii ''inMatch'', [0x6BD4, 0x8D5B, 0x4E2D]),
   (ascii ''in Match'', [0x6BD4, 0x8D5B, 0x4E2D]),
   (ascii ''In match'', [0x6BD4, 0x8D5B, 0x4E2D]),
   (ascii ''Offline'', [0x79BB, 0x7EBF]),
   (ascii ''Online'', [0x5728, 0x7EBF]),
   (ascii ''true'', [0x662F]),
   (ascii ''false'', [0x5426]),
   (ascii ''Bloodhound'', [0x5BFB, 0x8840, 0x730E, 0x72AC]),
   (ascii ''Gibraltar'', [0x76F4, 0x5E03, 0x7F57, 0x9640]),
   (ascii ''Lifeline'', [0x547D, 0x8109]),
   (ascii ''Pathfinder'', [0x63A2, 0x8DEF, 0x8005]),
   (ascii ''Wraith'', [0x6076, 0x7075]),
   (ascii ''Bangalore'', [0x73ED, 0x52A0, 0x7F57, 0x5C14]),
   (ascii ''Caustic'', [0x4FB5, 0x8680]),
   (ascii ''Mirage'', [0x5E7B, 0x8C61]),
   (ascii ''Octane'', [0x52A8, 0x529B, 0x5C0F, 0x5B50]),
   (ascii ''Wattson'', [0x6C83, 0x7279, 0x68EE]),
   (ascii ''Crypto'', [0x5BC6, 0x5BA2]),
   (ascii ''Revenant'', [0x4EA1, 0x7075]),
   (ascii ''Loba'', [0x7F57, 0x82AD]),
   (ascii ''Rampart'', [0x5170, 0x4F2F, 0x7279]),
   (ascii ''Horizon'', [0x5730, 0x5E73, 0x7EBF]),
   (ascii ''Fuse'', [0x66B4, 0x96F7]),
   (ascii ''Valkyrie'', [0x74E6, 0x5C14, 0x57FA, 0x91CC]),
   (ascii ''Seer'', [0x5E0C, 0x5C14]),
   (ascii ''Ash'', [0x827E, 0x8BB8]),
   (ascii ''Mad Maggie'', [0x75AF, 0x739B, 0x5409]),
   (ascii ''Newcastle'', [0x7EBD, 0x5361, 0x65AF, 0x5C14]),
   (ascii ''Vantage'', [0x4E07, 0x8482, 0x5947]),
   (ascii ''Catalyst'', [0x5361, 0x7279, 0x8389, 0x4E1D]),
   (ascii ''Ballistic'', [0x5F39, 0x9053]),
   (ascii ''Conduit'', [0x5BFC, 0x7BA1]),
   (ascii ''Alter'', [0x53D8, 0x5E7B]),
   (ascii ''Sparrow'', [0x7409, 0x96C0])]"

definition legendRankMap :: "(jsstring \<times> jsstring) list" where
  "legendRankMap =
  [([0x7F57, 0x82AD], ascii ''S''),
   ([0x5730, 0x5E73, 0x7EBF], ascii ''S''),
   ([0x52A8, 0x529B, 0x5C0F, 0x5B50], ascii ''S''),
   ([0x74E6, 0x5C14, 0x57FA, 0x91CC], ascii ''A''),
   ([0x547D, 0x8109], ascii ''A''),
   ([0x6076, 0x7075], ascii ''A''),
   ([0x63A2, 0x8DEF, 0x8005], ascii ''A''),
   ([0x827E, 0x8BB8], ascii ''B''),
   ([0x5E0C, 0x5C14], ascii ''B''),
   ([0x5BC6, 0x5BA2], ascii ''B''),
   ([0x6C83, 0x7279, 0x68EE], ascii ''B''),
   ([0x5BFB, 0x8840, 0x730E, 0x72AC], ascii ''B''),
   ([0x73ED, 0x52A0, 0x7F57, 0x5C14], ascii ''C''),
   ([0x7EBD, 0x5361, 0x65AF, 0x5C14], ascii ''C''),
   ([0x66B4, 0x96F7], ascii ''C''),
   ([0x76F4, 0x5E03, 0x7F57, 0x9640], ascii ''C''),
   ([0x5F39, 0x9053], ascii ''D''),
   ([0x4FB5, 0x8680], ascii ''D''),
   ([0x4EA1, 0x7075], ascii ''D''),
   ([0x75AF, 0x739B, 0x5409], ascii ''D''),
   ([0x5E7B, 0x8C61], ascii ''D''),
   ([0x5170, 0x4F2F, 0x7279], ascii ''D''),
   ([0x5BFC, 0x7BA1], ascii ''D''),
   ([0x5361, 0x7279, 0x8389, 0x4E1D], ascii ''D''),
   ([0x4E07, 0x8482, 0x5947], ascii ''D''),
   ([0x53D8, 0x5E7B], ascii ''C''),
   ([0x7409, 0x96C0], ascii ''B'')]"

text \<open>The three texts the code compares against: online, offline and unknown.\<close>

definition txtOnline :: jsstring where
  "txtOnline = [0x5728, 0x7EBF]"

definition txtOffline :: jsstring where
  "txtOffline = [0x79BB, 0x7EBF]"

definition txtUnknown :: jsstring where
  "txtUnknown = [0x672A, 0x77E5]"

definition translate :: "jsstring \<Rightarrow> jsstring" where
  "translate name = orString (map_of nameMap name) name"

definition containsPattern :: "jsstring \<Rightarrow> jsstring \<Rightarrow> bool" where
  "containsPattern text pattern = includesStr (toLowerCase text) (toLowerCase pattern)"

definition getLegendRank :: "jsstring \<Rightarrow> jsstring" where
  "getLegendRank legendName = orString (map_of legendRankMap legendName) txtUnknown"

definition isBlacklisted :: "jsstring \<Rightarrow> jsstring \<Rightarrow> bool" where
  "isBlacklisted playerName blacklist =
     (if blacklist = [] \<or> trim blacklist = [] then False
      else (let blacklistArray = map trim (split 44 (toLowerCase blacklist))
            in toLowerCase playerName \<in> set blacklistArray))"

section \<open>The pattern for the match timer\<close>

text \<open>
  \<open>getPlayerStats\<close> searches the state text with the literal \<open>/$(\d+:\d+)$$/\<close>. The
  pattern is a sequence of items: the assertion \<open>$\<close> (end of input, as the literal has
  no flags), the parentheses of the capture group, \<open>\d+\<close> and the colon. \<open>rxRun\<close> is a
  backtracking matcher for such sequences from one position: it gives the end of the
  match and the bounds of the group. \<open>\d+\<close> is greedy, so the longest run of digits is
  tried first. \<open>regexExec\<close> takes the leftmost start, as \<open>String.prototype.match\<close>
  does for a pattern without the global flag: it gives the start and the end of the
  match and the bounds of the group.
\<close>

datatype rx_item = AssertEnd | OpenGroup | CloseGroup | Digits | Unit nat

definition isDigit :: "nat \<Rightarrow> bool" where
  "isDigit u = (48 \<le> u \<and> u \<le> 57)"

fun firstSome :: "'a option list \<Rightarrow> 'a option" where
  "firstSome [] = None"
| "firstSome (None # xs) = firstSome xs"
| "firstSome (Some x # xs) = Some x"

fun rxRun :: "rx_item list \<Rightarrow> jsstring \<Rightarrow> nat \<Rightarrow> nat \<Rightarrow> nat \<Rightarrow> (nat \<times> nat \<times> nat) option" where
  "rxRun [] s i gs ge = Some (i, gs, ge)"
| "rxRun (AssertEnd # r) s i gs ge = (if i = length s then rxRun r s i gs ge else None)"
| "rxRun (OpenGroup # r) s i gs ge = rxRun r s i i ge"
| "rxRun (CloseGroup # r) s i gs ge = rxRun r s i gs i"
| "rxRun (Unit u # r) s i gs ge =
     (if i < length s \<and> s ! i = u then rxRun r s (i + 1) gs ge else None)"
| "rxRun (Digits # r) s i gs ge =
     firstSome (map (\<lambda>n. rxRun r s (i + n) gs ge)
                    (rev [1 ..< Suc (length (takeWhile isDigit (drop i s)))]))"

definition regexExec :: "rx_item list \<Rightarrow> jsstring \<Rightarrow> (nat \<times> nat \<times> nat \<times> nat) option" where
  "regexExec rx s =
     firstSome (map (\<lambda>i. map_option (\<lambda>(e, gs, ge). (i, e, gs, ge)) (rxRun rx s i 0 0))
                    [0 ..< Suc (length s)])"

definition matchTimeRegex :: "rx_item list" where
  "matchTimeRegex =
     [AssertEnd, OpenGroup, Digits, Unit 58, Digits, CloseGroup, AssertEnd, AssertEnd]"

section \<open>Configuration and data\<close>

text \<open>
  The options of \<open>Config\<close> that the modelled functions read. \<open>Schema.number()\<close> puts no
  bound on a number, so they are integers of either sign.
\<close>

record Config =
  maxRetries :: int
  maxScoreDropThreshold :: int
  minValidScore :: int
  blacklist :: jsstring

record PlayerData =
  playerName :: jsstring
  rankScore :: int
  rankName :: jsstring
  rankDiv :: int
  lastChecked :: int
  globalRankPercent :: "jsstring option"
  selectedLegend :: "jsstring option"
  legendRank :: "jsstring option"

text \<open>
  An object used as a dictionary is an association list of its own keys in insertion
  order: a new key goes to the end (\<open>AList.update\<close>), \<open>delete\<close> removes the key
  (\<open>AList.delete\<close>).
  (JavaScript lists keys that are array indices first; no property below depends on
  the order.)
\<close>

record GroupSubscription =
  groupId :: jsstring
  players :: "(jsstring \<times> PlayerData) list"

type_synonym registry = "(jsstring \<times> GroupSubscription) list"

text \<open>
  The registry and the players of a group are plain objects, so \<open>obj[key]\<close> also
  finds what the object inherits from \<open>Object.prototype\<close>: under each name of
  \<open>inheritedKeys\<close> it gives a function (the prototype itself under \<open>__proto__\<close>),
  which is truthy and has no property \<open>players\<close>. \<open>getProp\<close> is that read: the own
  entry when there is one, as an own property shadows an inherited one. The loops
  \<open>for ... in\<close> and \<open>Object.keys\<close> see the own keys only, and \<open>delete\<close> removes
  an own key only.
\<close>

definition inheritedKeys :: "jsstring list" where
  "inheritedKeys =
     [ascii ''constructor'', ascii ''__defineGetter__'', ascii ''__defineSetter__'',
      ascii ''hasOwnProperty'', ascii ''__lookupGetter__'', ascii ''__lookupSetter__'',
      ascii ''isPrototypeOf'', ascii ''propertyIsEnumerable'', ascii ''toString'',
      ascii ''valueOf'', ascii ''__proto__'', ascii ''toLocaleString'']"

datatype 'a property = Own 'a | Inherited | Missing

definition getProp :: "(jsstring \<times> 'a) list \<Rightarrow> jsstring \<Rightarrow> 'a property" where
  "getProp obj key =
     (case map_of obj key of
        Some v \<Rightarrow> Own v
      | None \<Rightarrow> if key \<in> set inheritedKeys then Inherited else Missing)"

text \<open>
  The payload of the stats provider, with the fields \<open>getPlayerStats\<close> reads. Every
  field may be missing. A failed request carries the \<open>code\<close> of the error and, when
  the server answered, the status of the response.
\<close>

record ApiRank =
  api_rankScore :: "int option"
  api_rankName :: "jsstring option"
  api_rankDiv :: "int option"
  api_ALStopPercentGlobal :: "jsstring option"

record ApiGlobal =
  api_name :: "jsstring option"
  api_level :: "int option"
  api_rank :: "ApiRank option"

record ApiRealtime =
  api_isOnline :: "int option"
  api_selectedLegend :: "jsstring option"
  api_currentStateAsText :: "jsstring option"
  api_currentState :: "jsstring option"

record ApiData =
  api_global :: "ApiGlobal option"
  api_realtime :: "ApiRealtime option"

record RequestError =
  err_code :: "jsstring option"
  err_status :: "int option"

text \<open>
  The outcome of one \<open>axiosInstance.get\<close>: the body of the response (\<open>None\<close> for a
  body that is null) or the error it throws. The network is a sequence of such
  outcomes, one for each attempt of a request.
\<close>

datatype attempt_outcome = Responded "ApiData option" | Failed RequestError

type_synonym network = "nat \<Rightarrow> attempt_outcome"

text \<open>What \<open>getPlayerStats\<close> returns.\<close>

record PlayerStats =
  st_name :: "jsstring option"
  st_level :: "int option"
  st_rankScore :: int
  st_rankName :: jsstring
  st_rankDiv :: int
  st_globalRankPercent :: jsstring
  st_isOnline :: jsstring
  st_selectedLegend :: jsstring
  st_legendRank :: jsstring
  st_currentState :: jsstring
  st_isInLobbyOrMatch :: bool

section \<open>Effects\<close>

text \<open>
  Messages are kept as the sequence of template pieces the code appends, each with the
  values it interpolates, not as rendered text. The notifier (\<open>sendGroupMessage\<close>) and
  the store (\<open>saveGroupData\<close>) catch their own failures, so a call to either is one
  event of the trace; \<open>SaveGroupData\<close> carries the registry that is written.
\<close>

datatype rank_display = RankWithDiv jsstring int | RankOnly jsstring

datatype diff_text = Rose int | Fell int

datatype segment =
    ChangeTitle
  | DateLine int
  | PlayerLine jsstring
  | OldScoreLine int
  | NewScoreLine int
  | RankLine rank_display
  | DeltaLine diff_text
  | PercentLine jsstring
  | LegendLine jsstring
  | LegendTier jsstring
  | StateLine jsstring
  | InfoTitle
  | InfoNameLine "jsstring option"
  | InfoScoreLine int
  | InfoLevelLine "int option"
  | OnlineLine jsstring
  | WatchAddedNotice jsstring

datatype log_entry =
    RetryingRequest nat int int
  | RequestFailedRetrying
  | ApiRequestFailed
  | CommandReceived
  | BlockedQuery jsstring
  | BlockedWatch jsstring
  | SkippedBlacklisted jsstring
  | QueryFailed
  | WatchFailed
  | ScoreInvalid jsstring int int
  | ScoreDropAnomalous jsstring int int
  | CheckFailed jsstring

datatype event =
    HttpGet jsstring
  | Delay int
  | Log log_entry
  | SendGroupMessage jsstring "segment list"
  | SaveGroupData registry

section \<open>The request with retries\<close>

definition isRetriableError :: "RequestError \<Rightarrow> bool" where
  "isRetriableError error =
     (err_code error = Some (ascii ''ECONNRESET'')
      \<or> err_code error = Some (ascii ''ETIMEDOUT'')
      \<or> err_code error = Some (ascii ''ECONNABORTED'')
      \<or> (case err_status error of
            None \<Rightarrow> False
          | Some status \<Rightarrow> status \<ge> 500 \<or> status = 429))"

text \<open>
  The result of the request: the body, or the value thrown. \<open>Threw None\<close> is the
  \<open>throw lastError\<close> after the loop when no attempt was made, with \<open>lastError\<close>
  still undefined.
\<close>

datatype request_result = Returned "ApiData option" | Threw "RequestError option"

text \<open>
  The loop \<open>for (attempt = 0; attempt <= maxRetries; attempt++)\<close>, from a given
  attempt on; \<open>retries\<close> is the parameter \<open>maxRetries\<close>. The delay before attempt \<open>attempt > 0\<close> is \<open>2 ^ attempt * 1000\<close> ms.
\<close>

function retryLoop ::
  "jsstring \<Rightarrow> int \<Rightarrow> network \<Rightarrow> nat \<Rightarrow> RequestError option \<Rightarrow> request_result \<times> event list" where
  "retryLoop player retries net attempt lastError =
     (if int attempt \<le> retries then
        (let waited =
               (if attempt > 0
                then [Log (RetryingRequest attempt retries (2 ^ attempt * 1000)),
                      Delay (2 ^ attempt * 1000)]
                else [])
         in (case net attempt of
               Responded data \<Rightarrow> (Returned data, waited @ [HttpGet player])
             | Failed error \<Rightarrow>
                 (if isRetriableError error \<and> int attempt < retries then
                    (let (res, evs) = retryLoop player retries net (attempt + 1) (Some error)
                     in (res, waited @ [HttpGet player, Log RequestFailedRetrying] @ evs))
                  else (Threw (Some error), waited @ [HttpGet player]))))
      else (Threw lastError, []))"
  by pat_completeness auto
termination
  by (relation "measure (\<lambda>(player, retries, net, attempt, lastError).
                           nat (retries + 1 - int attempt))") auto

declare retryLoop.simps [simp del]

definition apiRequestWithRetry :: "jsstring \<Rightarrow> int \<Rightarrow> network \<Rightarrow> request_result \<times> event list" where
  "apiRequestWithRetry player retries net = retryLoop player retries net 0 None"

section \<open>Fetching a player's statistics\<close>

datatype fetch_error = GetPlayerDataFailed

definition emptyGlobal :: ApiGlobal where
  "emptyGlobal = \<lparr>api_name = None, api_level = None, api_rank = None\<rparr>"

definition emptyRealtime :: ApiRealtime where
  "emptyRealtime = \<lparr>api_isOnline = None, api_selectedLegend = None,
                     api_currentStateAsText = None, api_currentState = None\<rparr>"

definition emptyRank :: ApiRank where
  "emptyRank = \<lparr>api_rankScore = None, api_rankName = None, api_rankDiv = None,
                 api_ALStopPercentGlobal = None\<rparr>"

text \<open>
  The search for the timer in the state text: the text of the timer to put back and
  the state text without the match, trimmed. Without a match both stay as they were.
\<close>

definition extractTime :: "jsstring \<Rightarrow> jsstring \<times> jsstring" where
  "extractTime currentState =
     (case regexExec matchTimeRegex currentState of
        None \<Rightarrow> ([], currentState)
      | Some (b, e, gs, ge) \<Rightarrow>
          (ascii '' ('' @ take (ge - gs) (drop gs currentState) @ ascii '')'',
           trim (take b currentState @ drop e currentState)))"

text \<open>The body of \<open>getPlayerStats\<close> after the request: the payload made into the result.\<close>

definition buildPlayerStats :: "ApiData \<Rightarrow> PlayerStats" where
  "buildPlayerStats data =
     (let globalData = (case api_global data of None \<Rightarrow> emptyGlobal | Some g \<Rightarrow> g);
          realtimeData = (case api_realtime data of None \<Rightarrow> emptyRealtime | Some r \<Rightarrow> r);
          rankData = (case api_rank globalData of None \<Rightarrow> emptyRank | Some r \<Rightarrow> r);
          isOnlineStatus = (if api_isOnline realtimeData = Some 1 then txtOnline else txtOffline);
          percent = orString (api_ALStopPercentGlobal rankData) txtUnknown;
          legend = translate (orString (api_selectedLegend realtimeData) []);
          tier = getLegendRank legend;
          (timeInfo, currentState) =
             extractTime (orString (api_currentStateAsText realtimeData)
                            (orString (api_currentState realtimeData) (ascii ''offline'')));
          translatedState =
             (if timeInfo \<noteq> [] then translate currentState @ timeInfo
              else translate currentState)
      in \<lparr>st_name = api_name globalData,
          st_level = api_level globalData,
          st_rankScore = orNumber (api_rankScore rankData) 0,
          st_rankName = translate (orString (api_rankName rankData) (ascii ''Unranked'')),
          st_rankDiv = orNumber (api_rankDiv rankData) 0,
          st_globalRankPercent = percent,
          st_isOnline = isOnlineStatus,
          st_selectedLegend = legend,
          st_legendRank = tier,
          st_currentState = translatedState,
          st_isInLobbyOrMatch =
            (containsPattern currentState (ascii ''lobby'')
             \<or> containsPattern currentState (ascii ''match''))\<rparr>)"

text \<open>
  \<open>getPlayerStats\<close>: whatever the request throws, and the type error on a null body,
  is logged and replaced by one error.
\<close>

definition getPlayerStats ::
  "Config \<Rightarrow> jsstring \<Rightarrow> network \<Rightarrow> (fetch_error + PlayerStats) \<times> event list" where
  "getPlayerStats config name net =
     (case apiRequestWithRetry name (maxRetries config) net of
        (Returned (Some data), evs) \<Rightarrow> (Inr (buildPlayerStats data), evs)
      | (Returned None, evs) \<Rightarrow> (Inl GetPlayerDataFailed, evs @ [Log ApiRequestFailed])
      | (Threw error, evs) \<Rightarrow> (Inl GetPlayerDataFailed, evs @ [Log ApiRequestFailed]))"

section \<open>Texts\<close>

definition rankDisplayOf :: "jsstring \<Rightarrow> int \<Rightarrow> rank_display" where
  "rankDisplayOf name division =
     (if division \<noteq> 0 then RankWithDiv name division else RankOnly name)"

definition formatPlayerRankText :: "PlayerStats \<Rightarrow> int \<Rightarrow> segment list" where
  "formatPlayerRankText playerData now =
     [InfoTitle, DateLine now, InfoNameLine (st_name playerData),
      RankLine (rankDisplayOf (st_rankName playerData) (st_rankDiv playerData)),
      InfoScoreLine (st_rankScore playerData)]
     @ (if st_globalRankPercent playerData \<noteq> []
           \<and> st_globalRankPercent playerData \<noteq> txtUnknown
        then [PercentLine (st_globalRankPercent playerData)] else [])
     @ [InfoLevelLine (st_level playerData)]
     @ (if st_isOnline playerData = txtOnline then
          [OnlineLine (st_isOnline playerData)]
          @ (if st_selectedLegend playerData \<noteq> [] then
               [LegendLine (st_selectedLegend playerData)]
               @ (if st_legendRank playerData \<noteq> [] \<and> st_legendRank playerData \<noteq> txtUnknown
                  then [LegendTier (st_legendRank playerData)] else [])
             else [])
          @ (if st_isInLobbyOrMatch playerData then [StateLine (st_currentState playerData)]
             else [])
        else [OnlineLine (st_isOnline playerData)])"

text \<open>The text of a rank change, as the reconciliation callback builds it.\<close>

definition changeMessage ::
  "PlayerData \<Rightarrow> PlayerStats \<Rightarrow> int \<Rightarrow> int \<Rightarrow> int \<Rightarrow> segment list" where
  "changeMessage player playerData oldRankScore newRankScore now =
     [ChangeTitle, DateLine now, PlayerLine (playerName player),
      OldScoreLine oldRankScore, NewScoreLine newRankScore,
      RankLine (rankDisplayOf (rankName player) (rankDiv player)),
      DeltaLine (if newRankScore - oldRankScore > 0 then Rose (newRankScore - oldRankScore)
                 else Fell \<bar>newRankScore - oldRankScore\<bar>)]
     @ (if st_globalRankPercent playerData \<noteq> []
           \<and> st_globalRankPercent playerData \<noteq> txtUnknown
        then [PercentLine (st_globalRankPercent playerData)] else [])
     @ (if st_isOnline playerData = txtOnline \<and> st_selectedLegend playerData \<noteq> [] then
          [LegendLine (st_selectedLegend playerData)]
          @ (if st_legendRank playerData \<noteq> [] \<and> st_legendRank playerData \<noteq> txtUnknown
             then [LegendTier (st_legendRank playerData)] else [])
        else [])
     @ (if st_isOnline playerData = txtOnline \<and> st_currentState playerData \<noteq> []
        then [StateLine (st_currentState playerData)] else [])"

section \<open>Commands\<close>

text \<open>
  A command takes the group of the session (\<open>session.guildId\<close>, which may be missing)
  and the name it was given (empty when none was given), and returns its reply, the
  registry and its trace. \<open>now\<close> is the reading of the clock.
\<close>

datatype reply =
    AskForPlayerName
  | GroupChatOnly
  | QueryForbidden jsstring
  | WatchForbidden jsstring
  | ScoreBelowMinimum jsstring int int
  | RankInfo "segment list"
  | QueryFailedReply
  | AlreadyWatching jsstring
  | WatchAdded jsstring rank_display int
  | WatchFailedReply
  | NotWatching jsstring
  | WatchRemoved jsstring

definition apexrank :: "Config \<Rightarrow> jsstring \<Rightarrow> network \<Rightarrow> int \<Rightarrow> reply \<times> event list" where
  "apexrank config name net now =
     (if name = [] then (AskForPlayerName, [Log CommandReceived])
      else if isBlacklisted name (blacklist config)
      then (QueryForbidden name, [Log CommandReceived, Log (BlockedQuery name)])
      else (case getPlayerStats config name net of
              (Inl error, evs) \<Rightarrow>
                (QueryFailedReply, [Log CommandReceived] @ evs @ [Log QueryFailed])
            | (Inr playerData, evs) \<Rightarrow>
                (if st_rankScore playerData < minValidScore config
                 then (ScoreBelowMinimum name (st_rankScore playerData) (minValidScore config),
                       [Log CommandReceived] @ evs)
                 else (RankInfo (formatPlayerRankText playerData now),
                       [Log CommandReceived] @ evs))))"

definition newPlayerData :: "jsstring \<Rightarrow> PlayerStats \<Rightarrow> int \<Rightarrow> PlayerData" where
  "newPlayerData name playerData now =
     \<lparr>playerName = name,
      rankScore = st_rankScore playerData,
      rankName = st_rankName playerData,
      rankDiv = st_rankDiv playerData,
      lastChecked = now,
      globalRankPercent = Some (st_globalRankPercent playerData),
      selectedLegend = Some (st_selectedLegend playerData),
      legendRank = Some (st_legendRank playerData)\<rparr>"

text \<open>
  The add command. After the fetch it reads \<open>groupSubscriptions[groupId]\<close>: when
  nothing is found it stores a new group without players; when the name of the group
  is an inherited one, the read of \<open>players[playerKey]\<close> on a value without
  \<open>players\<close> throws, and the \<open>catch\<close> of the command answers with the failure.
  Then \<open>players[playerKey]\<close> is tested for truthiness, so an inherited name counts
  as tracked, also in the group that was just stored.
\<close>

definition apexrankwatch ::
  "Config \<Rightarrow> jsstring option \<Rightarrow> jsstring \<Rightarrow> network \<Rightarrow> int \<Rightarrow> registry
     \<Rightarrow> reply \<times> registry \<times> event list" where
  "apexrankwatch config guildId name net now reg =
     (if name = [] then (AskForPlayerName, reg, [Log CommandReceived])
      else if guildId = None \<or> guildId = Some [] then (GroupChatOnly, reg, [Log CommandReceived])
      else if isBlacklisted name (blacklist config)
      then (WatchForbidden name, reg, [Log CommandReceived, Log (BlockedWatch name)])
      else
       (let gid = the guildId; playerKey = toLowerCase name
        in (case getPlayerStats config name net of
              (Inl error, evs) \<Rightarrow>
                (WatchFailedReply, reg, [Log CommandReceived] @ evs @ [Log WatchFailed])
            | (Inr playerData, evs) \<Rightarrow>
                (if st_rankScore playerData < minValidScore config
                 then (ScoreBelowMinimum name (st_rankScore playerData) (minValidScore config),
                       reg, [Log CommandReceived] @ evs)
                 else
                  (case getProp reg gid of
                     Inherited \<Rightarrow>
                       (WatchFailedReply, reg, [Log CommandReceived] @ evs @ [Log WatchFailed])
                   | found \<Rightarrow>
                  (let grp = (case found of
                                Own g \<Rightarrow> g
                              | other \<Rightarrow> \<lparr>groupId = gid, players = []\<rparr>);
                       reg1 = (if found = Missing then AList.update gid grp reg else reg)
                   in if getProp (players grp) playerKey \<noteq> Missing
                      then (AlreadyWatching name, reg1, [Log CommandReceived] @ evs)
                      else
                       (let reg2 = AList.update gid
                                     (grp\<lparr>players :=
                                        AList.update playerKey (newPlayerData name playerData now)
                                          (players grp)\<rparr>) reg1
                        in (WatchAdded name
                              (rankDisplayOf (st_rankName playerData) (st_rankDiv playerData))
                              (st_rankScore playerData),
                            reg2,
                            [Log CommandReceived] @ evs
                            @ [SaveGroupData reg2,
                               SendGroupMessage gid [WatchAddedNotice name]]))))))))"

text \<open>
  The remove command. A group under an inherited name has no \<open>players\<close>, so the
  command answers as for a missing group. \<open>!players[playerKey]\<close> is false for an own
  and for an inherited name alike: the command then deletes the own key, if any,
  deletes the group when no own key is left, writes the registry and answers that the
  player was removed.
\<close>

definition apexrankremove ::
  "jsstring option \<Rightarrow> jsstring \<Rightarrow> registry \<Rightarrow> reply \<times> registry \<times> event list" where
  "apexrankremove guildId name reg =
     (if name = [] then (AskForPlayerName, reg, [Log CommandReceived])
      else if guildId = None \<or> guildId = Some [] then (GroupChatOnly, reg, [Log CommandReceived])
      else
       (let gid = the guildId; playerKey = toLowerCase name
        in (case getProp reg gid of
              Own grp \<Rightarrow>
                (if getProp (players grp) playerKey = Missing
                 then (NotWatching name, reg, [Log CommandReceived])
                 else
                  (let remaining = AList.delete playerKey (players grp);
                       reg1 = AList.update gid (grp\<lparr>players := remaining\<rparr>) reg;
                       reg2 = (if remaining = [] then AList.delete gid reg1 else reg1)
                   in (WatchRemoved name, reg2,
                       [Log CommandReceived, SaveGroupData reg2])))
            | other \<Rightarrow> (NotWatching name, reg, [Log CommandReceived]))))"

section \<open>The reconciliation pass\<close>

text \<open>
  What one check of one player meets: the outcomes of its requests and the reading of
  the clock at the update (the date of the message is the same reading).
\<close>

record moment =
  reqs :: network
  clock :: int

text \<open>
  The body of the two loops for one player of one group. Within a pass no key is
  removed, so the group and the player are found; the model leaves the registry as it
  is otherwise.
\<close>

definition checkPlayer ::
  "Config \<Rightarrow> moment \<Rightarrow> jsstring \<Rightarrow> jsstring \<Rightarrow> registry \<Rightarrow> registry \<times> event list" where
  "checkPlayer config m gid playerKey reg =
     (case map_of reg gid of
        None \<Rightarrow> (reg, [])
      | Some grp \<Rightarrow>
     (case map_of (players grp) playerKey of
        None \<Rightarrow> (reg, [])
      | Some player \<Rightarrow>
     (if isBlacklisted (playerName player) (blacklist config)
      then (reg, [Log (SkippedBlacklisted (playerName player))])
      else
       (case getPlayerStats config (playerName player) (reqs m) of
          (Inl error, evs) \<Rightarrow> (reg, evs @ [Log (CheckFailed (playerName player))])
        | (Inr playerData, evs) \<Rightarrow>
           (let newRankScore = st_rankScore playerData;
                oldRankScore = rankScore player;
                isValidScore = (newRankScore \<ge> minValidScore config);
                diff = newRankScore - oldRankScore;
                isDroppingTooMuch = (diff < 0 \<and> \<bar>diff\<bar> > maxScoreDropThreshold config)
            in if isValidScore \<and> \<not> isDroppingTooMuch \<and> newRankScore \<noteq> oldRankScore then
                 (let updated = player\<lparr>rankScore := newRankScore,
                                        rankName := st_rankName playerData,
                                        rankDiv := st_rankDiv playerData,
                                        globalRankPercent := Some (st_globalRankPercent playerData),
                                        selectedLegend := Some (st_selectedLegend playerData),
                                        legendRank := Some (st_legendRank playerData),
                                        lastChecked := clock m\<rparr>;
                      reg1 = AList.update gid
                               (grp\<lparr>players := AList.update playerKey updated (players grp)\<rparr>)
                               reg;
                      message = changeMessage updated playerData oldRankScore newRankScore (clock m)
                  in (reg1, evs @ [SendGroupMessage gid message, SaveGroupData reg1]))
               else if \<not> isValidScore then
                 (reg, evs @ [Log (ScoreInvalid (playerName player) newRankScore oldRankScore)])
               else if isDroppingTooMuch then
                 (reg, evs @ [Log (ScoreDropAnomalous (playerName player) oldRankScore newRankScore)])
               else (reg, evs))))))"

text \<open>
  The keys the two \<open>for ... in\<close> loops visit: every group of the registry, and in it
  every player, in the order of the registry.
\<close>

definition targets :: "registry \<Rightarrow> (jsstring \<times> jsstring) list" where
  "targets reg = concat (map (\<lambda>(gid, grp). map (\<lambda>(playerKey, player). (gid, playerKey))
                                                  (players grp)) reg)"

fun checkAll ::
  "Config \<Rightarrow> (jsstring \<Rightarrow> jsstring \<Rightarrow> moment) \<Rightarrow> (jsstring \<times> jsstring) list \<Rightarrow> registry
     \<Rightarrow> registry \<times> event list" where
  "checkAll config world [] reg = (reg, [])"
| "checkAll config world ((gid, playerKey) # rest) reg =
     (let (reg1, evs1) = checkPlayer config (world gid playerKey) gid playerKey reg;
          (reg2, evs2) = checkAll config world rest reg1
      in (reg2, evs1 @ evs2))"

definition reconcile ::
  "Config \<Rightarrow> (jsstring \<Rightarrow> jsstring \<Rightarrow> moment) \<Rightarrow> registry \<Rightarrow> registry \<times> event list" where
  "reconcile config world reg = checkAll config world (targets reg) reg"

section \<open>Histories of the registry\<close>

text \<open>
  The registry changes by the add command, the remove command and the reconciliation
  pass; \<open>run\<close> applies a list of them in order.
\<close>

datatype operation =
    Add "jsstring option" jsstring network int
  | Remove "jsstring option" jsstring
  | Pass "jsstring \<Rightarrow> jsstring \<Rightarrow> moment"

fun applyOperation :: "Config \<Rightarrow> operation \<Rightarrow> registry \<Rightarrow> registry" where
  "applyOperation config (Add guildId name net now) reg =
     fst (snd (apexrankwatch config guildId name net now reg))"
| "applyOperation config (Remove guildId name) reg = fst (snd (apexrankremove guildId name reg))"
| "applyOperation config (Pass world) reg = fst (reconcile config world reg)"

definition run :: "Config \<Rightarrow> operation list \<Rightarrow> registry \<Rightarrow> registry" where
  "run config ops reg = foldl (\<lambda>r operation. applyOperation config operation r) reg ops"

section \<open>Vocabulary of the specification for the reconciliation\<close>

text \<open>
  The classifier as the specification words it, its four cases read in their order.
  \<open>notificationsOf\<close> and \<open>savesOf\<close> read the notifications and the writes of the
  registry off a trace; \<open>storedPlayer\<close> is the snapshot the registry holds for a
  player of a group.
\<close>

datatype classification = Invalid | AnomalousDrop | Unchanged | Changed

definition classify :: "int \<Rightarrow> int \<Rightarrow> int \<Rightarrow> int \<Rightarrow> classification" where
  "classify oldScore newScore minValid maxDrop =
     (if newScore < minValid then Invalid
      else if newScore < oldScore \<and> oldScore - newScore > maxDrop then AnomalousDrop
      else if newScore = oldScore then Unchanged
      else Changed)"

fun notificationsOf :: "event list \<Rightarrow> (jsstring \<times> segment list) list" where
  "notificationsOf [] = []"
| "notificationsOf (SendGroupMessage gid message # evs) = (gid, message) # notificationsOf evs"
| "notificationsOf (ev # evs) = notificationsOf evs"

fun savesOf :: "event list \<Rightarrow> registry list" where
  "savesOf [] = []"
| "savesOf (SaveGroupData reg # evs) = reg # savesOf evs"
| "savesOf (ev # evs) = savesOf evs"

definition storedPlayer :: "registry \<Rightarrow> jsstring \<Rightarrow> jsstring \<Rightarrow> PlayerData option" where
  "storedPlayer reg gid playerKey =
     (case map_of reg gid of None \<Rightarrow> None | Some grp \<Rightarrow> map_of (players grp) playerKey)"

text \<open>
  The order of the two effects of an accepted change. \<open>savedThenSent\<close>: the first of
  them in the trace is a write of the registry and a notification follows it.
  \<open>sentThenSaved\<close>: the first is a notification and a write follows it.
  \<open>stateLines\<close> reads the lines for the current state off a message.
\<close>

fun savedThenSent :: "event list \<Rightarrow> bool" where
  "savedThenSent [] = False"
| "savedThenSent (SaveGroupData reg # evs) = (notificationsOf evs \<noteq> [])"
| "savedThenSent (SendGroupMessage gid message # evs) = False"
| "savedThenSent (ev # evs) = savedThenSent evs"

fun sentThenSaved :: "event list \<Rightarrow> bool" where
  "sentThenSaved [] = False"
| "sentThenSaved (SendGroupMessage gid message # evs) = (savesOf evs \<noteq> [])"
| "sentThenSaved (SaveGroupData reg # evs) = False"
| "sentThenSaved (ev # evs) = sentThenSaved evs"

fun stateLines :: "segment list \<Rightarrow> jsstring list" where
  "stateLines [] = []"
| "stateLines (StateLine s # segs) = s # stateLines segs"
| "stateLines (seg # segs) = stateLines segs"

section \<open>Vocabulary of the specification for the registry\<close>

text \<open>
  \<open>inBlacklist\<close>: the name, in lower case, is one of the trimmed entries of the
  comma-separated blacklist, as the specification words the match.
  \<open>noEmptyGroups\<close>: no group of the registry has an empty mapping of players.
  \<open>scoresAtLeast n\<close>: every stored snapshot has a rank score of at least \<open>n\<close>;
  \<open>scoresInGroup n\<close> is that property for one entry of the registry.
  \<open>plainName\<close>: the name, in lower case, is not one a plain object inherits;
  \<open>plainAdds\<close>: every add of a history is for such a name.
\<close>

definition inBlacklist :: "jsstring \<Rightarrow> jsstring \<Rightarrow> bool" where
  "inBlacklist name entries =
     (toLowerCase name \<in> set (map trim (split 44 (toLowerCase entries))))"

definition noEmptyGroups :: "registry \<Rightarrow> bool" where
  "noEmptyGroups reg = list_all (\<lambda>(gid, grp). players grp \<noteq> []) reg"

definition scoresAtLeast :: "int \<Rightarrow> registry \<Rightarrow> bool" where
  "scoresAtLeast n reg =
     list_all (\<lambda>(gid, grp). list_all (\<lambda>(playerKey, player). n \<le> rankScore player) (players grp)) reg"

definition scoresInGroup :: "int \<Rightarrow> (jsstring \<times> GroupSubscription) \<Rightarrow> bool" where
  "scoresInGroup n entry =
     list_all (\<lambda>(playerKey, player). n \<le> rankScore player) (players (snd entry))"

definition plainName :: "jsstring \<Rightarrow> bool" where
  "plainName name = (toLowerCase name \<notin> set inheritedKeys)"

fun plainAdds :: "operation list \<Rightarrow> bool" where
  "plainAdds [] = True"
| "plainAdds (Add guildId name net now # ops) = (plainName name \<and> plainAdds ops)"
| "plainAdds (operation # ops) = plainAdds ops"

section \<open>Vocabulary of the specification for the retry policy\<close>

text \<open>
  A request outcome is transient when it is a failure that the code classifies as
  retriable. \<open>resultOf\<close> is what an outcome gives when it ends the request.
  \<open>delaysOf\<close> and \<open>requestsOf\<close> read the waits and the requests off a trace.
  \<open>attemptTrace\<close> lists the events of attempt \<open>i\<close> of a request that ends with
  attempt \<open>k\<close>.
\<close>

definition isTransient :: "attempt_outcome \<Rightarrow> bool" where
  "isTransient out =
     (case out of Responded data \<Rightarrow> False | Failed error \<Rightarrow> isRetriableError error)"

definition resultOf :: "attempt_outcome \<Rightarrow> request_result" where
  "resultOf out =
     (case out of Responded data \<Rightarrow> Returned data | Failed error \<Rightarrow> Threw (Some error))"

definition attemptTrace :: "jsstring \<Rightarrow> int \<Rightarrow> nat \<Rightarrow> nat \<Rightarrow> event list" where
  "attemptTrace player retries k i =
     (if i > 0 then [Log (RetryingRequest i retries (2 ^ i * 1000)), Delay (2 ^ i * 1000)] else [])
     @ [HttpGet player]
     @ (if i < k then [Log RequestFailedRetrying] else [])"

fun delaysOf :: "event list \<Rightarrow> int list" where
  "delaysOf [] = []"
| "delaysOf (Delay d # evs) = d # delaysOf evs"
| "delaysOf (ev # evs) = delaysOf evs"

fun requestsOf :: "event list \<Rightarrow> jsstring list" where
  "requestsOf [] = []"
| "requestsOf (HttpGet p # evs) = p # requestsOf evs"
| "requestsOf (ev # evs) = requestsOf evs"

section \<open>Sample inputs\<close>

definition timedOut :: RequestError where
  "timedOut = \<lparr>err_code = Some (ascii ''ETIMEDOUT''), err_status = None\<rparr>"

definition notFound :: RequestError where
  "notFound = \<lparr>err_code = Some (ascii ''ERR_BAD_REQUEST''), err_status = Some 404\<rparr>"

definition threeTimeouts :: network where
  "threeTimeouts i = (if i < 3 then Failed timedOut else Responded None)"

definition defaultConfig :: Config where
  "defaultConfig = \<lparr>maxRetries = 3, maxScoreDropThreshold = 2000, minValidScore = 1,
                     blacklist = []\<rparr>"

definition samplePayload :: "int \<Rightarrow> int \<Rightarrow> jsstring \<Rightarrow> ApiData" where
  "samplePayload score online state =
     \<lparr>api_global = Some \<lparr>api_name = Some (ascii ''moeneri''), api_level = Some 120,
         api_rank = Some \<lparr>api_rankScore = Some score, api_rankName = Some (ascii ''Gold''),
                           api_rankDiv = Some 2,
                           api_ALStopPercentGlobal = Some (ascii ''12.5'')\<rparr>\<rparr>,
      api_realtime = Some \<lparr>api_isOnline = Some online,
                            api_selectedLegend = Some (ascii ''Wraith''),
                            api_currentStateAsText = Some state, api_currentState = None\<rparr>\<rparr>"

definition answering :: "ApiData \<Rightarrow> network" where
  "answering data = (\<lambda>i. Responded (Some data))"

definition samplePlayer :: PlayerData where
  "samplePlayer =
     \<lparr>playerName = ascii ''moeneri'', rankScore = 10000, rankName = [0x9EC4, 0x91D1],
      rankDiv = 2, lastChecked = 1000, globalRankPercent = Some (ascii ''12.5''),
      selectedLegend = Some [0x6076, 0x7075], legendRank = Some (ascii ''A'')\<rparr>"

definition sampleGroup :: GroupSubscription where
  "sampleGroup = \<lparr>groupId = ascii ''g1'', players = [(ascii ''moeneri'', samplePlayer)]\<rparr>"

definition sampleRegistry :: registry where
  "sampleRegistry = [(ascii ''g1'', sampleGroup)]"

definition sampleMoment :: "int \<Rightarrow> int \<Rightarrow> jsstring \<Rightarrow> moment" where
  "sampleMoment score online state =
     \<lparr>reqs = answering (samplePayload score online state), clock = 2000\<rparr>"

definition strictConfig :: Config where
  "strictConfig = \<lparr>maxRetries = 3, maxScoreDropThreshold = 2000, minValidScore = 1,
                    blacklist = ascii ''cheater, Moeneri ,smurf''\<rparr>"


definition laxConfig :: Config where
  "laxConfig = \<lparr>maxRetries = 3, maxScoreDropThreshold = 2000, minValidScore = - 10,
                 blacklist = []\<rparr>"

definition sampleHistory :: "operation list" where
  "sampleHistory =
     [Add (Some (ascii ''g1'')) (ascii ''moeneri'')
        (answering (samplePayload 10000 1 (ascii ''Online''))) 1000,
      Pass (\<lambda>gid playerKey. sampleMoment 8500 1 (ascii ''In lobby''))]"

definition rivalPlayer :: PlayerData where
  "rivalPlayer = samplePlayer\<lparr>playerName := ascii ''rival'', rankScore := 9000\<rparr>"

definition twoPlayers :: registry where
  "twoPlayers =
     [(ascii ''g1'',
       \<lparr>groupId = ascii ''g1'',
        players = [(ascii ''moeneri'', samplePlayer), (ascii ''rival'', rivalPlayer)]\<rparr>)]"

definition outage :: "jsstring \<Rightarrow> jsstring \<Rightarrow> moment" where
  "outage gid playerKey =
     (if playerKey = ascii ''moeneri'' then \<lparr>reqs = (\<lambda>i. Failed notFound), clock = 2000\<rparr>
      else sampleMoment 8500 1 (ascii ''Online''))"

definition constructorHistory :: "operation list" where
  "constructorHistory =
     [Add (Some (ascii ''g1'')) (ascii ''constructor'')
        (answering (samplePayload 10000 1 (ascii ''Online''))) 1000,
      Add (Some (ascii ''g2'')) (ascii ''moeneri'')
        (answering (samplePayload 10000 1 (ascii ''Online''))) 1000,
      Remove (Some (ascii ''g2'')) (ascii ''moeneri'')]"

section \<open>The retry policy\<close>

lemma delaysOf_append: "delaysOf (xs @ ys) = delaysOf xs @ delaysOf ys"
  by (induction xs rule: delaysOf.induct) simp_all

lemma requestsOf_append: "requestsOf (xs @ ys) = requestsOf xs @ requestsOf ys"
  by (induction xs rule: requestsOf.induct) simp_all

lemma upt_first: "a \<le> k \<Longrightarrow> [a ..< Suc k] = a # [Suc a ..< Suc k]"
  by (simp add: upt_conv_Cons)

lemma retryLoop_trace:
  assumes "int (a + n) \<le> retries"
    and "\<forall>i. a \<le> i \<and> i < a + n \<longrightarrow> isTransient (net i)"
    and "int (a + n) = retries \<or> \<not> isTransient (net (a + n))"
  shows "retryLoop p retries net a lastErr =
           (resultOf (net (a + n)),
            concat (map (attemptTrace p retries (a + n)) [a ..< Suc (a + n)]))"
  using assms
proof (induction n arbitrary: a lastErr)
  case 0
  have le: "int a \<le> retries" using "0.prems" by simp
  have stop: "\<And>e. net a = Failed e \<Longrightarrow> \<not> (isRetriableError e \<and> int a < retries)"
    using "0.prems" by (auto simp: isTransient_def)
  show ?case
    by (subst retryLoop.simps)
       (use le stop in \<open>auto simp: resultOf_def attemptTrace_def Let_def split: attempt_outcome.splits\<close>)
next
  case (Suc n)
  have tr: "isTransient (net a)" using Suc.prems by simp
  then obtain e where e: "net a = Failed e" "isRetriableError e"
    by (auto simp: isTransient_def split: attempt_outcome.splits)
  have le: "int a < retries" using Suc.prems by linarith
  have ih: "retryLoop p retries net (Suc a) (Some e) =
              (resultOf (net (Suc a + n)),
               concat (map (attemptTrace p retries (Suc a + n)) [Suc a ..< Suc (Suc a + n)]))"
    using Suc.prems by (intro Suc.IH) auto
  have upt: "[a ..< Suc (a + Suc n)] = a # [Suc a ..< Suc (a + Suc n)]"
    by (rule upt_first) simp
  show ?case
    by (subst retryLoop.simps, subst upt)
       (use e le ih in \<open>simp add: attemptTrace_def Let_def del: upt_Suc\<close>)
qed

lemma delaysOf_attemptTrace:
  "delaysOf (attemptTrace p retries k i) = (if i > 0 then [2 ^ i * 1000] else [])"
  by (simp add: attemptTrace_def delaysOf_append)

lemma delays_from:
  "delaysOf (concat (map (attemptTrace p retries k) xs)) =
     map (\<lambda>i. 2 ^ i * 1000) (filter (\<lambda>i. i > 0) xs)"
  by (induction xs) (simp_all add: delaysOf_append delaysOf_attemptTrace)

lemma positive_upt: "filter (\<lambda>i. i > 0) [0 ..< Suc k] = [1 ..< Suc k]"
proof -
  have "[0 ..< Suc k] = 0 # [1 ..< Suc k]"
    by (simp add: upt_conv_Cons del: upt_Suc)
  moreover have "filter (\<lambda>i. i > 0) [1 ..< Suc k] = [1 ..< Suc k]"
    by (rule filter_True) auto
  ultimately show ?thesis by (simp del: upt_Suc)
qed

lemma requests_from:
  "requestsOf (concat (map (attemptTrace p retries k) xs)) = map (\<lambda>i. p) xs"
  by (induction xs) (simp_all add: requestsOf_append attemptTrace_def)

text \<open>
  Claim C2. Take a retry budget \<open>retries \<ge> 0\<close> and any sequence of request
  outcomes, and let \<open>k\<close> be the first attempt whose outcome is not a transient
  failure, or the last attempt of the budget when every outcome up to it is transient.
  Then the request ends with the outcome of attempt \<open>k\<close>: the body of the response,
  or that failure thrown again. It has made exactly \<open>k + 1\<close> requests, so it retried
  only after transient failures and made no attempt after a fatal one, and the waits
  are \<open>2 ^ i\<close> seconds before retry \<open>i\<close>, for \<open>i\<close> from 1 to \<open>k\<close> and no others.
\<close>

theorem retry_policy:
  assumes "0 \<le> retries" and "k \<le> nat retries"
    and "\<forall>i<k. isTransient (net i)"
    and "k = nat retries \<or> \<not> isTransient (net k)"
  shows "fst (apiRequestWithRetry p retries net) = resultOf (net k)
       \<and> delaysOf (snd (apiRequestWithRetry p retries net)) = map (\<lambda>i. 2 ^ i * 1000) [1 ..< Suc k]
       \<and> requestsOf (snd (apiRequestWithRetry p retries net)) = replicate (Suc k) p"
proof -
  have "retryLoop p retries net 0 None =
          (resultOf (net (0 + k)), concat (map (attemptTrace p retries (0 + k)) [0 ..< Suc (0 + k)]))"
    using assms by (intro retryLoop_trace) auto
  then have eq: "apiRequestWithRetry p retries net =
          (resultOf (net k), concat (map (attemptTrace p retries k) [0 ..< Suc k]))"
    by (simp add: apiRequestWithRetry_def del: upt_Suc)
  have d: "delaysOf (concat (map (attemptTrace p retries k) [0 ..< Suc k])) =
             map (\<lambda>i. 2 ^ i * 1000) [1 ..< Suc k]"
    by (simp only: delays_from positive_upt)
  have r: "requestsOf (concat (map (attemptTrace p retries k) [0 ..< Suc k])) = replicate (Suc k) p"
    by (simp only: requests_from map_replicate_const length_upt diff_zero)
  show ?thesis
    by (simp only: eq fst_conv snd_conv d r simp_thms)
qed

lemma isRetriable_timedOut: "isRetriableError timedOut"
  by (simp add: isRetriableError_def timedOut_def ascii_def)

lemma notRetriable_notFound: "\<not> isRetriableError notFound"
  by (simp add: isRetriableError_def notFound_def ascii_def)

text \<open>
  With the default budget of 3: three timeouts and then a response give the response
  after waits of 2, 4 and 8 seconds; a 404 on the first attempt is thrown at once, with
  one request and no wait.
\<close>

theorem retry_policy_witness:
  "isTransient (threeTimeouts 0) \<and> isTransient (threeTimeouts 1) \<and> isTransient (threeTimeouts 2)
   \<and> \<not> isTransient (threeTimeouts 3)
   \<and> fst (apiRequestWithRetry (ascii ''moeneri'') 3 threeTimeouts) = Returned None
   \<and> delaysOf (snd (apiRequestWithRetry (ascii ''moeneri'') 3 threeTimeouts)) = [2000, 4000, 8000]
   \<and> \<not> isTransient (Failed notFound)
   \<and> fst (apiRequestWithRetry (ascii ''moeneri'') 3 (\<lambda>i. Failed notFound)) = Threw (Some notFound)
   \<and> delaysOf (snd (apiRequestWithRetry (ascii ''moeneri'') 3 (\<lambda>i. Failed notFound))) = []
   \<and> requestsOf (snd (apiRequestWithRetry (ascii ''moeneri'') 3 (\<lambda>i. Failed notFound))) = [ascii ''moeneri'']"
proof -
  have t: "\<forall>i<3. isTransient (threeTimeouts i)"
    by (simp add: threeTimeouts_def isTransient_def isRetriable_timedOut)
  have s: "\<not> isTransient (threeTimeouts 3)"
    by (simp add: threeTimeouts_def isTransient_def)
  have f: "\<not> isTransient (Failed notFound)"
    by (simp add: isTransient_def notRetriable_notFound)
  have u: "map (\<lambda>i. 2 ^ i * 1000) [Suc 0 ..< 4] = [2000, 4000, 8000 :: int]"
    by code_simp
  show ?thesis
    using retry_policy [of 3 3 threeTimeouts "ascii ''moeneri''"]
      retry_policy [of 3 0 "\<lambda>i. Failed notFound" "ascii ''moeneri''"] t s f
    by (simp add: u resultOf_def threeTimeouts_def isTransient_def isRetriable_timedOut)
qed

section \<open>One step of the reconciliation\<close>

lemma notificationsOf_append: "notificationsOf (xs @ ys) = notificationsOf xs @ notificationsOf ys"
  by (induction xs rule: notificationsOf.induct) simp_all

lemma savesOf_append: "savesOf (xs @ ys) = savesOf xs @ savesOf ys"
  by (induction xs rule: savesOf.induct) simp_all

lemma retryLoop_quiet:
  "notificationsOf (snd (retryLoop p retries net a lastErr)) = []
   \<and> savesOf (snd (retryLoop p retries net a lastErr)) = []"
proof (induction p retries net a lastErr rule: retryLoop.induct)
  case (1 player retries net attempt lastError)
  show ?case
  proof (cases "int attempt \<le> retries")
    case False
    then show ?thesis by (subst (1 2) retryLoop.simps) simp
  next
    case le: True
    show ?thesis
    proof (cases "net attempt")
      case (Responded data)
      then show ?thesis
        by (subst (1 2) retryLoop.simps)
           (simp add: le notificationsOf_append savesOf_append)
    next
      case (Failed error)
      show ?thesis
      proof (cases "isRetriableError error \<and> int attempt < retries")
        case True
        then have ih: "notificationsOf (snd (retryLoop player retries net (attempt + 1) (Some error))) = []
                     \<and> savesOf (snd (retryLoop player retries net (attempt + 1) (Some error))) = []"
          using "1.IH"[OF le refl Failed] by simp
        show ?thesis
          by (subst (1 2) retryLoop.simps)
             (use ih True in \<open>simp add: le Failed split_def Let_def notificationsOf_append savesOf_append\<close>)
      next
        case False
        then show ?thesis
          by (subst (1 2) retryLoop.simps)
             (auto simp add: le Failed notificationsOf_append savesOf_append)
      qed
    qed
  qed
qed

lemma getPlayerStats_quiet:
  "notificationsOf (snd (getPlayerStats config name net)) = []
   \<and> savesOf (snd (getPlayerStats config name net)) = []"
  using retryLoop_quiet[of name "maxRetries config" net 0 None]
  by (auto simp: getPlayerStats_def apiRequestWithRetry_def notificationsOf_append savesOf_append
           split: prod.splits request_result.splits option.splits)

lemma storedPlayer_update:
  "storedPlayer (AList.update gid (grp\<lparr>players := AList.update playerKey p (players grp)\<rparr>) reg)
     gid playerKey = Some p"
  by (simp add: storedPlayer_def update_conv')

lemma checkPlayer_fetched:
  assumes "map_of reg gid = Some grp" and "map_of (players grp) playerKey = Some player"
    and "\<not> isBlacklisted (playerName player) (blacklist config)"
    and "getPlayerStats config (playerName player) (reqs m) = (Inr playerData, evs)"
  shows "checkPlayer config m gid playerKey reg =
     (let newRankScore = st_rankScore playerData;
                oldRankScore = rankScore player;
                isValidScore = (newRankScore \<ge> minValidScore config);
                diff = newRankScore - oldRankScore;
                isDroppingTooMuch = (diff < 0 \<and> \<bar>diff\<bar> > maxScoreDropThreshold config)
            in if isValidScore \<and> \<not> isDroppingTooMuch \<and> newRankScore \<noteq> oldRankScore then
                 (let updated = player\<lparr>rankScore := newRankScore,
                                        rankName := st_rankName playerData,
                                        rankDiv := st_rankDiv playerData,
                                        globalRankPercent := Some (st_globalRankPercent playerData),
                                        selectedLegend := Some (st_selectedLegend playerData),
                                        legendRank := Some (st_legendRank playerData),
                                        lastChecked := clock m\<rparr>;
                      reg1 = AList.update gid
                               (grp\<lparr>players := AList.update playerKey updated (players grp)\<rparr>)
                               reg;
                      message = changeMessage updated playerData oldRankScore newRankScore (clock m)
                  in (reg1, evs @ [SendGroupMessage gid message, SaveGroupData reg1]))
               else if \<not> isValidScore then
                 (reg, evs @ [Log (ScoreInvalid (playerName player) newRankScore oldRankScore)])
               else if isDroppingTooMuch then
                 (reg, evs @ [Log (ScoreDropAnomalous (playerName player) oldRankScore newRankScore)])
               else (reg, evs))"
  unfolding checkPlayer_def by (simp only: assms option.case prod.case sum.case if_False)

text \<open>
  Claim C1. For a tracked player that is not blacklisted and whose statistics were
  fetched, one step of the reconciliation behaves as the classifier of the
  specification says, for every old score, new score, minimum valid score and drop
  threshold: the registry changes exactly when the class is Changed, a notification is
  sent exactly then, and the registry is written exactly then; on Changed the stored
  score becomes the new score; on Invalid and on AnomalousDrop the step only logs its
  warning, and on Unchanged it does nothing.
\<close>

theorem check_classification:
  assumes "map_of reg gid = Some grp" and "map_of (players grp) playerKey = Some player"
    and "\<not> isBlacklisted (playerName player) (blacklist config)"
    and "getPlayerStats config (playerName player) (reqs m) = (Inr playerData, evs)"
  shows "let c = classify (rankScore player) (st_rankScore playerData)
                   (minValidScore config) (maxScoreDropThreshold config);
             r = checkPlayer config m gid playerKey reg
         in ((c = Changed) = (fst r \<noteq> reg))
          \<and> ((c = Changed) = (notificationsOf (snd r) \<noteq> []))
          \<and> ((c = Changed) = (savesOf (snd r) \<noteq> []))
          \<and> (c = Changed \<longrightarrow>
               map_option rankScore (storedPlayer (fst r) gid playerKey)
                 = Some (st_rankScore playerData))
          \<and> (c = Invalid \<longrightarrow>
               snd r = evs @ [Log (ScoreInvalid (playerName player) (st_rankScore playerData)
                                     (rankScore player))])
          \<and> (c = AnomalousDrop \<longrightarrow>
               snd r = evs @ [Log (ScoreDropAnomalous (playerName player) (rankScore player)
                                     (st_rankScore playerData))])
          \<and> (c = Unchanged \<longrightarrow> snd r = evs)"
proof -
  have q: "notificationsOf evs = []" "savesOf evs = []"
    using getPlayerStats_quiet[of config "playerName player" "reqs m"] assms(4) by simp_all
  have old: "storedPlayer reg gid playerKey = Some player"
    using assms(1,2) by (simp add: storedPlayer_def)
  have neq: "\<And>p. rankScore p \<noteq> rankScore player \<Longrightarrow>
      AList.update gid (grp\<lparr>players := AList.update playerKey p (players grp)\<rparr>) reg \<noteq> reg"
  proof
    fix p assume a: "rankScore p \<noteq> rankScore player"
      and e: "AList.update gid (grp\<lparr>players := AList.update playerKey p (players grp)\<rparr>) reg = reg"
    have "storedPlayer reg gid playerKey = Some p"
      using storedPlayer_update[where gid=gid and grp=grp and playerKey=playerKey and p=p and reg=reg] e by simp
    with old a show False by simp
  qed
  let ?new = "st_rankScore playerData" and ?old = "rankScore player"
  consider (invalid) "?new < minValidScore config"
    | (drop) "\<not> ?new < minValidScore config" "?new < ?old" "?old - ?new > maxScoreDropThreshold config"
    | (same) "\<not> ?new < minValidScore config" "?new = ?old"
    | (changed) "\<not> ?new < minValidScore config" "?new \<noteq> ?old"
        "\<not> (?new < ?old \<and> ?old - ?new > maxScoreDropThreshold config)"
    by linarith
  then show ?thesis
  proof cases
    case invalid
    then show ?thesis
      by (simp add: checkPlayer_fetched[OF assms] classify_def Let_def q notificationsOf_append savesOf_append)
  next
    case drop
    then show ?thesis
      by (simp add: checkPlayer_fetched[OF assms] classify_def Let_def q notificationsOf_append savesOf_append)
  next
    case same
    then show ?thesis
      by (simp add: checkPlayer_fetched[OF assms] classify_def Let_def q notificationsOf_append savesOf_append)
  next
    case changed
    then have c: "classify ?old ?new (minValidScore config) (maxScoreDropThreshold config) = Changed"
      by (auto simp: classify_def)
    have br: "?new \<ge> minValidScore config \<and>
         \<not> (?new - ?old < 0 \<and> \<bar>?new - ?old\<bar> > maxScoreDropThreshold config) \<and> ?new \<noteq> ?old"
      using changed by auto
    show ?thesis
      unfolding Let_def c checkPlayer_fetched[OF assms, unfolded Let_def] if_P[OF br]
      using changed(2)
      by (simp add: q notificationsOf_append savesOf_append storedPlayer_update neq)
  qed
qed

lemma sample_fetch:
  "getPlayerStats defaultConfig (ascii ''moeneri'') (answering (samplePayload 8500 1 (ascii ''Online'')))
     = (Inr (buildPlayerStats (samplePayload 8500 1 (ascii ''Online''))), [HttpGet (ascii ''moeneri'')])"
  by (simp add: getPlayerStats_def apiRequestWithRetry_def retryLoop.simps answering_def defaultConfig_def)

text \<open>
  The example of the specification: a stored score of 10000, a fetched score of 8500
  and the default thresholds give Changed, and the stored score becomes 8500.
\<close>

theorem check_classification_witness:
  "map_of sampleRegistry (ascii ''g1'') = Some sampleGroup
   \<and> map_of (players sampleGroup) (ascii ''moeneri'') = Some samplePlayer
   \<and> \<not> isBlacklisted (playerName samplePlayer) (blacklist defaultConfig)
   \<and> classify 10000 8500 1 2000 = Changed
   \<and> fst (checkPlayer defaultConfig
             \<lparr>reqs = answering (samplePayload 8500 1 (ascii ''Online'')), clock = 2000\<rparr>
             (ascii ''g1'') (ascii ''moeneri'') sampleRegistry) \<noteq> sampleRegistry
   \<and> map_option rankScore
        (storedPlayer (fst (checkPlayer defaultConfig
             \<lparr>reqs = answering (samplePayload 8500 1 (ascii ''Online'')), clock = 2000\<rparr>
             (ascii ''g1'') (ascii ''moeneri'') sampleRegistry)) (ascii ''g1'') (ascii ''moeneri''))
       = Some 8500"
proof -
  have a: "map_of sampleRegistry (ascii ''g1'') = Some sampleGroup"
    by (simp add: sampleRegistry_def)
  have b: "map_of (players sampleGroup) (ascii ''moeneri'') = Some samplePlayer"
    by (simp add: sampleGroup_def)
  have c: "\<not> isBlacklisted (playerName samplePlayer) (blacklist defaultConfig)"
    by (simp add: isBlacklisted_def defaultConfig_def)
  have d: "getPlayerStats defaultConfig (playerName samplePlayer)
             (reqs \<lparr>reqs = answering (samplePayload 8500 1 (ascii ''Online'')), clock = 2000\<rparr>)
     = (Inr (buildPlayerStats (samplePayload 8500 1 (ascii ''Online''))), [HttpGet (ascii ''moeneri'')])"
    using sample_fetch by (simp add: samplePlayer_def)
  have e: "st_rankScore (buildPlayerStats (samplePayload 8500 1 (ascii ''Online''))) = 8500"
    by (simp add: buildPlayerStats_def samplePayload_def Let_def orNumber_def split_def)
  have f: "classify 10000 8500 1 2000 = Changed"
    by (simp add: classify_def)
  show ?thesis
    using check_classification [OF a b c d] a b c f
    by (simp add: Let_def e samplePlayer_def defaultConfig_def)
qed

section \<open>The effects of an accepted change\<close>

lemma sentThenSaved_quiet:
  "notificationsOf evs = [] \<Longrightarrow> savesOf evs = [] \<Longrightarrow>
     sentThenSaved (evs @ rest) = sentThenSaved rest"
  by (induction evs rule: sentThenSaved.induct) simp_all

lemma savedThenSent_quiet:
  "notificationsOf evs = [] \<Longrightarrow> savesOf evs = [] \<Longrightarrow>
     savedThenSent (evs @ rest) = savedThenSent rest"
  by (induction evs rule: savedThenSent.induct) simp_all

lemma checkPlayer_changed:
  assumes "map_of reg gid = Some grp" and "map_of (players grp) playerKey = Some player"
    and "\<not> isBlacklisted (playerName player) (blacklist config)"
    and "getPlayerStats config (playerName player) (reqs m) = (Inr playerData, evs)"
    and "classify (rankScore player) (st_rankScore playerData)
           (minValidScore config) (maxScoreDropThreshold config) = Changed"
    and "updated = player\<lparr>rankScore := st_rankScore playerData,
                            rankName := st_rankName playerData,
                            rankDiv := st_rankDiv playerData,
                            globalRankPercent := Some (st_globalRankPercent playerData),
                            selectedLegend := Some (st_selectedLegend playerData),
                            legendRank := Some (st_legendRank playerData),
                            lastChecked := clock m\<rparr>"
    and "reg1 = AList.update gid (grp\<lparr>players := AList.update playerKey updated (players grp)\<rparr>) reg"
  shows "checkPlayer config m gid playerKey reg =
           (reg1, evs @ [SendGroupMessage gid
                           (changeMessage updated playerData (rankScore player)
                              (st_rankScore playerData) (clock m)),
                         SaveGroupData reg1])"
proof -
  let ?new = "st_rankScore playerData" and ?old = "rankScore player"
  have br: "?new \<ge> minValidScore config \<and>
         \<not> (?new - ?old < 0 \<and> \<bar>?new - ?old\<bar> > maxScoreDropThreshold config) \<and> ?new \<noteq> ?old"
    using assms(5) by (auto simp: classify_def split: if_splits)
  show ?thesis
    unfolding checkPlayer_fetched[OF assms(1-4), unfolded Let_def] if_P[OF br] assms(6,7)
    by (rule refl)
qed

text \<open>
  Claim C3, as amended. When a step of the reconciliation classifies the observation
  as Changed, it first updates the snapshot in memory (score, rank name, division,
  percentile, character, character tier and the time of the check), then sends the
  notification to the group, built from the updated snapshot, and then writes the
  registry, which holds the updated snapshot: the notification comes before the
  write, not after it.
\<close>

theorem changed_effects_order:
  assumes "map_of reg gid = Some grp" and "map_of (players grp) playerKey = Some player"
    and "\<not> isBlacklisted (playerName player) (blacklist config)"
    and "getPlayerStats config (playerName player) (reqs m) = (Inr playerData, evs)"
    and "classify (rankScore player) (st_rankScore playerData)
           (minValidScore config) (maxScoreDropThreshold config) = Changed"
  shows "let r = checkPlayer config m gid playerKey reg;
             updated = player\<lparr>rankScore := st_rankScore playerData,
                                rankName := st_rankName playerData,
                                rankDiv := st_rankDiv playerData,
                                globalRankPercent := Some (st_globalRankPercent playerData),
                                selectedLegend := Some (st_selectedLegend playerData),
                                legendRank := Some (st_legendRank playerData),
                                lastChecked := clock m\<rparr>
         in storedPlayer (fst r) gid playerKey = Some updated
          \<and> snd r = evs @ [SendGroupMessage gid
                              (changeMessage updated playerData (rankScore player)
                                 (st_rankScore playerData) (clock m)),
                            SaveGroupData (fst r)]
          \<and> sentThenSaved (snd r) \<and> \<not> savedThenSent (snd r)"
proof -
  have q: "notificationsOf evs = []" "savesOf evs = []"
    using getPlayerStats_quiet[of config "playerName player" "reqs m"] assms(4) by simp_all
  show ?thesis
    unfolding Let_def checkPlayer_changed[OF assms refl refl]
    by (simp add: storedPlayer_update sentThenSaved_quiet[OF q] savedThenSent_quiet[OF q])
qed

lemma stateLines_append: "stateLines (xs @ ys) = stateLines xs @ stateLines ys"
  by (induction xs rule: stateLines.induct) simp_all

lemma stateLines_changeMessage:
  "stateLines (changeMessage player playerData old new now) =
     (if st_isOnline playerData = txtOnline \<and> st_currentState playerData \<noteq> []
      then [st_currentState playerData] else [])"
  by (simp add: changeMessage_def stateLines_append)

lemma regex_never_matches: "regexExec matchTimeRegex s = None"
proof -
  have run: "\<And>i. rxRun matchTimeRegex s i 0 0 = None"
    by (simp add: matchTimeRegex_def)
  have fs: "\<And>xs :: nat list. firstSome (map (\<lambda>i. None :: (nat \<times> nat \<times> nat \<times> nat) option) xs) = None"
    subgoal for xs by (induction xs) simp_all
    done
  show ?thesis
    unfolding regexExec_def run by (simp add: fs del: upt_Suc)
qed

lemma extractTime_id: "extractTime s = ([], s)"
  by (simp add: extractTime_def regex_never_matches)

lemma translate_nonempty: "s \<noteq> [] \<Longrightarrow> translate s \<noteq> []"
  by (simp add: translate_def orString_def split: option.splits)

lemma orString_nonempty: "d \<noteq> [] \<Longrightarrow> orString v d \<noteq> []"
  by (simp add: orString_def split: option.splits)

lemma currentState_nonempty: "st_currentState (buildPlayerStats data) \<noteq> []"
proof -
  have "ascii ''offline'' \<noteq> []" by (simp add: ascii_def)
  then show ?thesis
    by (simp add: buildPlayerStats_def Let_def extractTime_id translate_nonempty orString_nonempty)
qed

lemma getPlayerStats_built:
  "getPlayerStats config name net = (Inr playerData, evs) \<Longrightarrow> \<exists>data. playerData = buildPlayerStats data"
  by (auto simp: getPlayerStats_def split: prod.splits request_result.splits option.splits)

text \<open>
  Claim C5, as amended. The notification of a rank change has the line for the current
  state exactly when the player is online, whatever the state is: the line carries the
  translated state, and for a player that is not online there is no such line.
\<close>

theorem state_line_when_online:
  assumes "map_of reg gid = Some grp" and "map_of (players grp) playerKey = Some player"
    and "\<not> isBlacklisted (playerName player) (blacklist config)"
    and "getPlayerStats config (playerName player) (reqs m) = (Inr playerData, evs)"
    and "classify (rankScore player) (st_rankScore playerData)
           (minValidScore config) (maxScoreDropThreshold config) = Changed"
  shows "map (\<lambda>(g, message). stateLines message)
           (notificationsOf (snd (checkPlayer config m gid playerKey reg)))
         = [if st_isOnline playerData = txtOnline then [st_currentState playerData] else []]"
proof -
  have q: "notificationsOf evs = []"
    using getPlayerStats_quiet[of config "playerName player" "reqs m"] assms(4) by simp
  obtain data where "playerData = buildPlayerStats data"
    using getPlayerStats_built[OF assms(4)] by blast
  then have ne: "st_currentState playerData \<noteq> []"
    by (simp add: currentState_nonempty)
  show ?thesis
    unfolding checkPlayer_changed[OF assms refl refl]
    by (simp add: q notificationsOf_append stateLines_changeMessage ne)
qed

lemma sample_stats:
  "getPlayerStats defaultConfig (ascii ''moeneri'') (answering data)
     = (Inr (buildPlayerStats data), [HttpGet (ascii ''moeneri'')])"
  by (simp add: getPlayerStats_def apiRequestWithRetry_def retryLoop.simps answering_def defaultConfig_def)

lemma sample_tracked:
  "map_of sampleRegistry (ascii ''g1'') = Some sampleGroup"
  "map_of (players sampleGroup) (ascii ''moeneri'') = Some samplePlayer"
  "\<not> isBlacklisted (playerName samplePlayer) (blacklist defaultConfig)"
  "getPlayerStats defaultConfig (playerName samplePlayer) (reqs (sampleMoment score online state))
     = (Inr (buildPlayerStats (samplePayload score online state)), [HttpGet (ascii ''moeneri'')])"
  by (simp_all add: sampleRegistry_def sampleGroup_def isBlacklisted_def defaultConfig_def
        sampleMoment_def sample_stats[unfolded defaultConfig_def] samplePlayer_def)

lemma sample_score:
  "st_rankScore (buildPlayerStats (samplePayload score online state)) = score"
  by (simp add: buildPlayerStats_def samplePayload_def Let_def orNumber_def split_def)

lemma sample_changed:
  "classify (rankScore samplePlayer)
     (st_rankScore (buildPlayerStats (samplePayload 8500 online state)))
     (minValidScore defaultConfig) (maxScoreDropThreshold defaultConfig) = Changed"
  by (simp add: sample_score classify_def samplePlayer_def defaultConfig_def)

text \<open>A drop from 10000 to 8500 for a player in the lobby: sent, then saved.\<close>

theorem changed_effects_order_witness:
  "classify 10000 8500 1 2000 = Changed
   \<and> sentThenSaved (snd (checkPlayer defaultConfig (sampleMoment 8500 1 (ascii ''In lobby''))
                          (ascii ''g1'') (ascii ''moeneri'') sampleRegistry))
   \<and> map_option lastChecked
        (storedPlayer (fst (checkPlayer defaultConfig (sampleMoment 8500 1 (ascii ''In lobby''))
                              (ascii ''g1'') (ascii ''moeneri'') sampleRegistry))
           (ascii ''g1'') (ascii ''moeneri'')) = Some 2000"
  using changed_effects_order [OF sample_tracked sample_changed, of 1 "ascii ''In lobby''"]
  by (simp add: Let_def classify_def sampleMoment_def)

text \<open>
  Claim C3 as stated fails: on the same drop the write of the registry does not come
  before the notification.
\<close>

theorem persist_before_notify_counterexample:
  "classify 10000 8500 1 2000 = Changed
   \<and> \<not> savedThenSent (snd (checkPlayer defaultConfig (sampleMoment 8500 1 (ascii ''Online''))
                          (ascii ''g1'') (ascii ''moeneri'') sampleRegistry))"
  by (simp add: classify_def
        checkPlayer_changed [OF sample_tracked sample_changed refl refl] savedThenSent_quiet)

text \<open>An online player in the lobby: the message carries the translated state.\<close>

theorem state_line_when_online_witness:
  "classify 10000 8500 1 2000 = Changed
   \<and> map (\<lambda>(g, message). stateLines message)
        (notificationsOf (snd (checkPlayer defaultConfig (sampleMoment 8500 1 (ascii ''In lobby''))
                                 (ascii ''g1'') (ascii ''moeneri'') sampleRegistry)))
      = [[[0x5728, 0x5927, 0x5385]]]"
proof -
  have s: "st_isOnline (buildPlayerStats (samplePayload 8500 1 (ascii ''In lobby''))) = txtOnline"
    "st_currentState (buildPlayerStats (samplePayload 8500 1 (ascii ''In lobby'')))
       = [0x5728, 0x5927, 0x5385]"
    by (simp_all add: buildPlayerStats_def samplePayload_def Let_def extractTime_id orString_def
          translate_def nameMap_def ascii_def)
  show ?thesis
    using state_line_when_online [OF sample_tracked sample_changed, of 1 "ascii ''In lobby''"]
    by (simp add: s classify_def)
qed

text \<open>
  Claim C5 as stated fails: a player who is online with the state \<open>Online\<close> is neither
  in the lobby nor in a match, and the notification still has the state line.
\<close>

theorem state_line_outside_lobby_and_match_counterexample:
  "st_isOnline (buildPlayerStats (samplePayload 8500 1 (ascii ''Online''))) = txtOnline
   \<and> \<not> st_isInLobbyOrMatch (buildPlayerStats (samplePayload 8500 1 (ascii ''Online'')))
   \<and> map (\<lambda>(g, message). stateLines message)
        (notificationsOf (snd (checkPlayer defaultConfig (sampleMoment 8500 1 (ascii ''Online''))
                                 (ascii ''g1'') (ascii ''moeneri'') sampleRegistry)))
      = [[txtOnline]]"
proof -
  have s: "st_isOnline (buildPlayerStats (samplePayload 8500 1 (ascii ''Online''))) = txtOnline"
    "st_currentState (buildPlayerStats (samplePayload 8500 1 (ascii ''Online''))) = txtOnline"
    "\<not> st_isInLobbyOrMatch (buildPlayerStats (samplePayload 8500 1 (ascii ''Online'')))"
    by (simp_all add: buildPlayerStats_def samplePayload_def Let_def extractTime_id orString_def
          translate_def nameMap_def ascii_def txtOnline_def containsPattern_def toLowerCase_def
          lowerUnit_def)
  have ne: "txtOnline \<noteq> []" by (simp add: txtOnline_def)
  show ?thesis
    by (simp add: s ne checkPlayer_changed [OF sample_tracked sample_changed refl refl]
          notificationsOf_append stateLines_changeMessage)
qed

text \<open>
  The matcher does find the timer under a pattern with the parentheses as literals;
  under the pattern of the source it finds nothing (\<open>regex_never_matches\<close>).
\<close>

lemma matcher_finds_timer:
  "regexExec [Unit 40, OpenGroup, Digits, Unit 58, Digits, CloseGroup, Unit 41, AssertEnd]
     (ascii ''In match (00:39)'') = Some (9, 16, 10, 15)"
  by (simp add: regexExec_def ascii_def isDigit_def upt_rec)

text \<open>
  Claim C4 fails on the code. For the state \<open>In match (00:39)\<close> the claim asks for the
  translation of \<open>In match\<close> followed by the timer; the code returns the text as it
  came, untranslated, since the pattern never matches and the whole text is not a key
  of the table.
\<close>

theorem timer_suffix_not_extracted:
  "st_currentState (buildPlayerStats (samplePayload 8500 1 (ascii ''In match (00:39)'')))
     = ascii ''In match (00:39)''
   \<and> translate (ascii ''In match'') @ ascii '' (00:39)''
     = [0x6BD4, 0x8D5B, 0x4E2D] @ ascii '' (00:39)''
   \<and> st_currentState (buildPlayerStats (samplePayload 8500 1 (ascii ''In match (00:39)'')))
     \<noteq> translate (ascii ''In match'') @ ascii '' (00:39)''"
  by (simp add: buildPlayerStats_def samplePayload_def Let_def extractTime_id orString_def
        translate_def nameMap_def ascii_def)

section \<open>The blacklist\<close>

lemma trim_empty: "trim s = [] \<Longrightarrow> \<forall>u \<in> set s. isWhiteSpace u"
proof -
  assume "trim s = []"
  then have "dropWhile isWhiteSpace (rev (dropWhile isWhiteSpace s)) = []"
    by (simp add: trim_def)
  then have all: "\<forall>u \<in> set (dropWhile isWhiteSpace s). isWhiteSpace u"
    by (simp add: dropWhile_eq_Nil_conv)
  have "dropWhile isWhiteSpace s = []"
  proof (cases "dropWhile isWhiteSpace s")
    case Nil
    then show ?thesis .
  next
    case (Cons u us)
    then have "\<not> isWhiteSpace u" by (metis hd_dropWhile list.sel(1) list.distinct(1))
    moreover have "isWhiteSpace u" using all Cons by simp
    ultimately show ?thesis by simp
  qed
  then show ?thesis by (simp add: dropWhile_eq_Nil_conv)
qed

lemma lower_whiteSpace: "isWhiteSpace u \<Longrightarrow> lowerUnit u = u"
  by (auto simp: isWhiteSpace_def lowerUnit_def)

lemma toLowerCase_whiteSpace: "\<forall>u \<in> set s. isWhiteSpace u \<Longrightarrow> toLowerCase s = s"
  by (induction s) (simp_all add: toLowerCase_def lower_whiteSpace)

lemma split_without_separator: "sep \<notin> set s \<Longrightarrow> split sep s = [s]"
  by (induction s) simp_all

lemma comma_not_whiteSpace: "\<not> isWhiteSpace 44"
  by (simp add: isWhiteSpace_def)

lemma toLowerCase_empty: "toLowerCase name = [] \<Longrightarrow> name = []"
  by (simp add: toLowerCase_def)

lemma inBlacklist_isBlacklisted:
  assumes "name \<noteq> []" and "inBlacklist name entries"
  shows "isBlacklisted name entries"
proof -
  have "\<not> (entries = [] \<or> trim entries = [])"
  proof
    assume "entries = [] \<or> trim entries = []"
    then have t: "trim entries = []" by (auto simp: trim_def)
    then have ws: "\<forall>u \<in> set entries. isWhiteSpace u" by (rule trim_empty)
    then have "44 \<notin> set entries" using comma_not_whiteSpace by blast
    then have "map trim (split 44 (toLowerCase entries)) = [[]]"
      using ws t by (simp add: toLowerCase_whiteSpace split_without_separator)
    then have "toLowerCase name = []" using assms(2) by (simp add: inBlacklist_def)
    then show False using assms(1) toLowerCase_empty by blast
  qed
  then show ?thesis using assms(2) by (simp add: isBlacklisted_def inBlacklist_def)
qed

text \<open>
  Claim C6. For every player name that is one of the trimmed, comma-separated entries
  of the configured blacklist, compared in lower case: the query command answers with
  the blacklist error and its trace has no request; the add command, in a group,
  answers with the blacklist error, leaves the registry as it was and makes no
  request; and the step of the reconciliation for a tracked player of that name only
  logs that it skips him: no request, no change of the registry, no write and no
  notification.
\<close>

theorem blacklist_enforced:
  assumes "name \<noteq> []" and "inBlacklist name (blacklist config)"
  shows "apexrank config name net now
           = (QueryForbidden name, [Log CommandReceived, Log (BlockedQuery name)])
       \<and> (gid \<noteq> [] \<longrightarrow>
            apexrankwatch config (Some gid) name net now reg
              = (WatchForbidden name, reg, [Log CommandReceived, Log (BlockedWatch name)]))
       \<and> (map_of reg gid = Some grp \<and> map_of (players grp) playerKey = Some player
            \<and> playerName player = name \<longrightarrow>
            checkPlayer config m gid playerKey reg = (reg, [Log (SkippedBlacklisted name)]))"
proof -
  have b: "isBlacklisted name (blacklist config)"
    using assms by (rule inBlacklist_isBlacklisted)
  show ?thesis
    using assms(1) b by (simp add: apexrank_def apexrankwatch_def checkPlayer_def)
qed

text \<open>The entry \<open>Moeneri\<close>, with spaces around it, blocks the name \<open>moeneri\<close>.\<close>

theorem blacklist_enforced_witness:
  "inBlacklist (ascii ''moeneri'') (blacklist strictConfig)
   \<and> apexrank strictConfig (ascii ''moeneri'') (answering (samplePayload 8500 1 (ascii ''Online''))) 2000
       = (QueryForbidden (ascii ''moeneri''),
          [Log CommandReceived, Log (BlockedQuery (ascii ''moeneri''))])
   \<and> apexrankwatch strictConfig (Some (ascii ''g1'')) (ascii ''moeneri'')
         (answering (samplePayload 8500 1 (ascii ''Online''))) 2000 []
       = (WatchForbidden (ascii ''moeneri''), [],
          [Log CommandReceived, Log (BlockedWatch (ascii ''moeneri''))])
   \<and> checkPlayer strictConfig (sampleMoment 8500 1 (ascii ''Online''))
         (ascii ''g1'') (ascii ''moeneri'') sampleRegistry
       = (sampleRegistry, [Log (SkippedBlacklisted (ascii ''moeneri''))])"
proof -
  have n: "ascii ''moeneri'' \<noteq> []" "ascii ''g1'' \<noteq> []" by (simp_all add: ascii_def)
  have i: "inBlacklist (ascii ''moeneri'') (blacklist strictConfig)"
    by (simp add: inBlacklist_def strictConfig_def toLowerCase_def lowerUnit_def trim_def
          isWhiteSpace_def ascii_def)
  have p: "playerName samplePlayer = ascii ''moeneri''" by (simp add: samplePlayer_def)
  show ?thesis
    using blacklist_enforced [OF n(1) i, of "answering (samplePayload 8500 1 (ascii ''Online''))" 2000
        "ascii ''g1''" "[]" ]
      blacklist_enforced [OF n(1) i, of _ _ "ascii ''g1''" sampleRegistry sampleGroup
        "ascii ''moeneri''" samplePlayer "sampleMoment 8500 1 (ascii ''Online'')"]
      sample_tracked(1,2) p n i
    by simp
qed

section \<open>Invariants of the registry\<close>

lemma list_all_update:
  "list_all P al \<Longrightarrow> P (k, v) \<Longrightarrow> list_all P (AList.update k v al)"
  by (induction al) auto

lemma list_all_delete:
  "list_all P al \<Longrightarrow> list_all P (AList.delete k al)"
  by (induction al) auto

lemma list_all_map_of:
  "list_all P al \<Longrightarrow> map_of al k = Some v \<Longrightarrow> P (k, v)"
  by (induction al) (auto split: if_splits)

lemma getProp_Own: "(getProp obj key = Own v) = (map_of obj key = Some v)"
  by (simp add: getProp_def split: option.splits)

lemma getProp_Missing: "getProp obj key = Missing \<Longrightarrow> map_of obj key = None"
  by (simp add: getProp_def split: option.splits if_splits)

lemma getProp_empty: "getProp [] key = (if key \<in> set inheritedKeys then Inherited else Missing)"
  by (simp add: getProp_def)

lemma getProp_plain:
  "key \<notin> set inheritedKeys \<Longrightarrow>
     getProp obj key = (case map_of obj key of Some v \<Rightarrow> Own v | None \<Rightarrow> Missing)"
  by (simp add: getProp_def)

lemma scoresAtLeast_groups: "scoresAtLeast n reg = list_all (scoresInGroup n) reg"
  by (induction reg) (auto simp: scoresAtLeast_def scoresInGroup_def)

lemma scoresInGroup_insert:
  assumes "scoresInGroup n (gid, grp)" and "n \<le> rankScore p"
  shows "scoresInGroup n (gid, grp\<lparr>players := AList.update playerKey p (players grp)\<rparr>)"
  using assms by (auto simp: scoresInGroup_def intro: list_all_update)

lemma scoresInGroup_delete:
  assumes "scoresInGroup n (gid, grp)"
  shows "scoresInGroup n (gid, grp\<lparr>players := AList.delete playerKey (players grp)\<rparr>)"
  using assms by (auto simp: scoresInGroup_def intro: list_all_delete)

lemma scoresInGroup_new: "scoresInGroup n (gid, \<lparr>groupId = gid, players = []\<rparr>)"
  by (simp add: scoresInGroup_def)

lemma apexrankwatch_scores:
  assumes "list_all (scoresInGroup (minValidScore config)) reg"
  shows "list_all (scoresInGroup (minValidScore config))
           (fst (snd (apexrankwatch config guildId name net now reg)))"
proof (cases "getPlayerStats config name net")
  case (Pair res evs)
  show ?thesis
  proof (cases res)
    case (Inl e)
    then show ?thesis using assms Pair by (simp add: apexrankwatch_def Let_def)
  next
    case (Inr pd)
    show ?thesis
    proof (cases "getProp reg (the guildId)")
      case (Own grp)
      then have "map_of reg (the guildId) = Some grp" by (simp add: getProp_Own)
      then have g: "scoresInGroup (minValidScore config) (the guildId, grp)"
        using list_all_map_of[OF assms] by blast
      have k: "scoresInGroup (minValidScore config)
                 (the guildId, grp\<lparr>players := AList.update (toLowerCase name)
                                                   (newPlayerData name pd now) (players grp)\<rparr>)"
        if "minValidScore config \<le> st_rankScore pd"
        using that g by (intro scoresInGroup_insert) (simp_all add: newPlayerData_def)
      show ?thesis
        using assms Pair Inr Own k
        by (simp add: apexrankwatch_def Let_def list_all_update)
    next
      case Inherited
      then show ?thesis using assms Pair Inr by (simp add: apexrankwatch_def Let_def)
    next
      case Missing
      have k: "scoresInGroup (minValidScore config)
                 (the guildId, \<lparr>groupId = the guildId,
                                 players = [(toLowerCase name, newPlayerData name pd now)]\<rparr>)"
        if "minValidScore config \<le> st_rankScore pd"
        using that by (simp add: scoresInGroup_def newPlayerData_def)
      show ?thesis
        using assms Pair Inr Missing k scoresInGroup_new[of "minValidScore config" "the guildId"]
        by (simp add: apexrankwatch_def Let_def list_all_update)
    qed
  qed
qed

lemma apexrankremove_scores:
  assumes "list_all (scoresInGroup n) reg"
  shows "list_all (scoresInGroup n) (fst (snd (apexrankremove guildId name reg)))"
proof (cases "getProp reg (the guildId)")
  case (Own grp)
  then have "map_of reg (the guildId) = Some grp" by (simp add: getProp_Own)
  then have g: "scoresInGroup n (the guildId, grp)"
    using list_all_map_of[OF assms] by blast
  have k: "scoresInGroup n
             (the guildId, grp\<lparr>players := AList.delete (toLowerCase name) (players grp)\<rparr>)"
    using g by (rule scoresInGroup_delete)
  show ?thesis
    using assms Own k
    by (simp add: apexrankremove_def Let_def list_all_update list_all_delete delete_update_same)
next
  case Inherited
  then show ?thesis using assms by (simp add: apexrankremove_def Let_def)
next
  case Missing
  then show ?thesis using assms by (simp add: apexrankremove_def Let_def)
qed

lemma checkPlayer_scores:
  assumes "list_all (scoresInGroup (minValidScore config)) reg"
  shows "list_all (scoresInGroup (minValidScore config)) (fst (checkPlayer config m gid playerKey reg))"
proof (cases "map_of reg gid")
  case None
  then show ?thesis using assms by (simp add: checkPlayer_def)
next
  case (Some grp)
  have g: "scoresInGroup (minValidScore config) (gid, grp)"
    using list_all_map_of[OF assms Some] .
  show ?thesis
  proof (cases "map_of (players grp) playerKey")
    case None
    then show ?thesis using assms Some by (simp add: checkPlayer_def)
  next
    case player: (Some player)
    show ?thesis
    proof (cases "getPlayerStats config (playerName player) (reqs m)")
      case (Pair res evs)
      show ?thesis
      proof (cases res)
        case (Inl e)
        then show ?thesis using assms Some player Pair by (simp add: checkPlayer_def)
      next
        case (Inr pd)
        have k: "scoresInGroup (minValidScore config)
                   (gid, grp\<lparr>players := AList.update playerKey p (players grp)\<rparr>)"
          if "minValidScore config \<le> rankScore p" for p
          using that g by (intro scoresInGroup_insert) simp_all
        show ?thesis
          using assms Some player Pair Inr
          by (simp add: checkPlayer_def Let_def list_all_update k)
      qed
    qed
  qed
qed

lemma checkAll_scores:
  "list_all (scoresInGroup (minValidScore config)) reg \<Longrightarrow>
     list_all (scoresInGroup (minValidScore config)) (fst (checkAll config world ts reg))"
proof (induction ts arbitrary: reg)
  case Nil
  then show ?case by simp
next
  case (Cons t ts)
  obtain gid playerKey where t: "t = (gid, playerKey)" by (cases t)
  have "list_all (scoresInGroup (minValidScore config))
          (fst (checkPlayer config (world gid playerKey) gid playerKey reg))"
    using Cons.prems by (rule checkPlayer_scores)
  from Cons.IH[OF this] show ?case
    by (simp add: t split_def Let_def)
qed

lemma applyOperation_scores:
  "list_all (scoresInGroup (minValidScore config)) reg \<Longrightarrow>
     list_all (scoresInGroup (minValidScore config)) (applyOperation config operation reg)"
  by (cases operation)
     (simp_all add: apexrankwatch_scores apexrankremove_scores checkAll_scores reconcile_def)

lemma run_scores:
  "list_all (scoresInGroup (minValidScore config)) reg \<Longrightarrow>
     list_all (scoresInGroup (minValidScore config)) (run config ops reg)"
  unfolding run_def
  by (induction ops arbitrary: reg) (simp_all add: applyOperation_scores)

lemma reachable_scores: "scoresAtLeast (minValidScore config) (run config ops [])"
  unfolding scoresAtLeast_groups by (rule run_scores) simp

lemma scoresAtLeast_mono: "scoresAtLeast n reg \<Longrightarrow> k \<le> n \<Longrightarrow> scoresAtLeast k reg"
  unfolding scoresAtLeast_def list_all_iff by fastforce

text \<open>
  Claim C10, as amended. When the configured minimum valid score is not negative (the
  default is 1), every snapshot of every registry reached from the empty one by add,
  remove and reconciliation has a rank score that is at least the minimum valid score,
  hence not negative.
\<close>

theorem stored_scores_not_negative:
  assumes "0 \<le> minValidScore config"
  shows "scoresAtLeast 0 (run config ops [])
       \<and> scoresAtLeast (minValidScore config) (run config ops [])"
  using reachable_scores[of config ops] assms
  by (auto intro: scoresAtLeast_mono)

lemma plain_moeneri: "ascii ''moeneri'' \<notin> set inheritedKeys" "ascii ''g1'' \<notin> set inheritedKeys"
  "ascii ''g2'' \<notin> set inheritedKeys"
  by (simp_all add: inheritedKeys_def ascii_def)

lemma sample_add:
  "apexrankwatch defaultConfig (Some (ascii ''g1'')) (ascii ''moeneri'')
     (answering (samplePayload 10000 1 (ascii ''Online''))) 1000 []
   = (WatchAdded (ascii ''moeneri'') (RankWithDiv [0x9EC4, 0x91D1] 2) 10000, sampleRegistry,
      [Log CommandReceived, HttpGet (ascii ''moeneri''), SaveGroupData sampleRegistry,
       SendGroupMessage (ascii ''g1'') [WatchAddedNotice (ascii ''moeneri'')]])"
proof -
  have n: "ascii ''moeneri'' \<noteq> []" "ascii ''g1'' \<noteq> []" by (simp_all add: ascii_def)
  have l: "toLowerCase (ascii ''moeneri'') = ascii ''moeneri''"
    by (simp add: toLowerCase_def lowerUnit_def ascii_def)
  have b: "\<not> isBlacklisted (ascii ''moeneri'') (blacklist defaultConfig)"
    by (simp add: isBlacklisted_def defaultConfig_def)
  have m: "minValidScore defaultConfig = 1" by (simp add: defaultConfig_def)
  have p: "newPlayerData (ascii ''moeneri'')
             (buildPlayerStats (samplePayload 10000 1 (ascii ''Online''))) 1000 = samplePlayer"
    by (simp add: newPlayerData_def buildPlayerStats_def samplePayload_def samplePlayer_def Let_def
          extractTime_id orString_def orNumber_def translate_def nameMap_def getLegendRank_def
          legendRankMap_def ascii_def txtUnknown_def)
  have s: "st_rankScore (buildPlayerStats (samplePayload 10000 1 (ascii ''Online''))) = 10000"
    "st_rankName (buildPlayerStats (samplePayload 10000 1 (ascii ''Online''))) = [0x9EC4, 0x91D1]"
    "st_rankDiv (buildPlayerStats (samplePayload 10000 1 (ascii ''Online''))) = 2"
    by (simp_all add: buildPlayerStats_def samplePayload_def Let_def split_def orString_def
          orNumber_def translate_def nameMap_def ascii_def)
  have g: "getProp ([] :: registry) (ascii ''g1'') = Missing"
    "getProp ([] :: (jsstring \<times> PlayerData) list) (ascii ''moeneri'') = Missing"
    by (simp_all add: getProp_empty plain_moeneri)
  show ?thesis
    unfolding apexrankwatch_def
    by (simp add: n l b m p s g sample_stats Let_def rankDisplayOf_def sampleRegistry_def
          sampleGroup_def)
qed

lemma sample_history:
  "map_option rankScore (storedPlayer (run defaultConfig sampleHistory []) (ascii ''g1'') (ascii ''moeneri''))
     = Some 8500"
proof -
  have t: "targets sampleRegistry = [(ascii ''g1'', ascii ''moeneri'')]"
    by (simp add: targets_def sampleRegistry_def sampleGroup_def)
  show ?thesis
    by (simp add: run_def sampleHistory_def sample_add reconcile_def t split_def sample_score
          checkPlayer_changed [OF sample_tracked sample_changed refl refl] storedPlayer_update)
qed

text \<open>With the default configuration: an add at 10000, then a pass that fetches 8500.\<close>

theorem stored_scores_not_negative_witness:
  "0 \<le> minValidScore defaultConfig
   \<and> scoresAtLeast 0 (run defaultConfig sampleHistory [])
   \<and> map_option rankScore
        (storedPlayer (run defaultConfig sampleHistory []) (ascii ''g1'') (ascii ''moeneri''))
       = Some 8500"
proof -
  have m: "0 \<le> minValidScore defaultConfig" by (simp add: defaultConfig_def)
  show ?thesis
    using stored_scores_not_negative [OF m, of sampleHistory] m sample_history by simp
qed

text \<open>
  Claim C10 as stated fails: the code compares the score with the configured minimum
  only, so with a minimum of -10 an add that fetches the score -5 stores it.
\<close>

theorem negative_score_stored_counterexample:
  "\<not> scoresAtLeast 0
        (run laxConfig
           [Add (Some (ascii ''g1'')) (ascii ''moeneri'')
              (answering (samplePayload (- 5) 1 (ascii ''Online''))) 1000] [])
   \<and> map_option rankScore
        (storedPlayer
           (run laxConfig
              [Add (Some (ascii ''g1'')) (ascii ''moeneri'')
                 (answering (samplePayload (- 5) 1 (ascii ''Online''))) 1000] [])
           (ascii ''g1'') (ascii ''moeneri'')) = Some (- 5)"
proof -
  have n: "ascii ''moeneri'' \<noteq> []" "ascii ''g1'' \<noteq> []" by (simp_all add: ascii_def)
  have l: "toLowerCase (ascii ''moeneri'') = ascii ''moeneri''"
    by (simp add: toLowerCase_def lowerUnit_def ascii_def)
  have b: "\<not> isBlacklisted (ascii ''moeneri'') (blacklist laxConfig)"
    by (simp add: isBlacklisted_def laxConfig_def)
  have m: "minValidScore laxConfig = - 10" by (simp add: laxConfig_def)
  have f: "getPlayerStats laxConfig (ascii ''moeneri'') (answering (samplePayload (- 5) 1 (ascii ''Online'')))
     = (Inr (buildPlayerStats (samplePayload (- 5) 1 (ascii ''Online''))), [HttpGet (ascii ''moeneri'')])"
    by (simp add: getPlayerStats_def apiRequestWithRetry_def retryLoop.simps answering_def laxConfig_def)
  have s: "st_rankScore (buildPlayerStats (samplePayload (- 5) 1 (ascii ''Online''))) = - 5"
    by (simp add: sample_score)
  have g: "getProp ([] :: registry) (ascii ''g1'') = Missing"
    "getProp ([] :: (jsstring \<times> PlayerData) list) (ascii ''moeneri'') = Missing"
    by (simp_all add: getProp_empty plain_moeneri)
  show ?thesis
    by (simp add: run_def apexrankwatch_def n l b m f s g Let_def storedPlayer_def update_conv'
          scoresAtLeast_def newPlayerData_def)
qed

section \<open>Groups without players\<close>

lemma apexrankremove_noEmptyGroups:
  assumes "noEmptyGroups reg"
  shows "noEmptyGroups (fst (snd (apexrankremove guildId name reg)))"
proof (cases "getProp reg (the guildId)")
  case (Own grp)
  show ?thesis
    using assms Own unfolding noEmptyGroups_def
    by (simp add: apexrankremove_def Let_def list_all_update list_all_delete delete_update_same)
next
  case Inherited
  then show ?thesis using assms by (simp add: apexrankremove_def Let_def)
next
  case Missing
  then show ?thesis using assms by (simp add: apexrankremove_def Let_def)
qed

lemma apexrankremove_last:
  assumes "gid \<noteq> []" and "name \<noteq> []" and "map_of reg gid = Some grp"
    and "players grp = [(toLowerCase name, player)]"
  shows "apexrankremove (Some gid) name reg
           = (WatchRemoved name, AList.delete gid reg,
              [Log CommandReceived, SaveGroupData (AList.delete gid reg)])"
proof -
  have g: "getProp reg gid = Own grp" using assms(3) by (simp add: getProp_Own)
  have p: "getProp (players grp) (toLowerCase name) = Own player"
    using assms(4) by (simp add: getProp_Own)
  show ?thesis
    using assms(1,2,4) p
    by (simp add: apexrankremove_def g Let_def delete_update_same)
qed

lemma apexrankremove_saved:
  "fst (apexrankremove guildId name reg) = WatchRemoved name \<Longrightarrow>
     snd (snd (apexrankremove guildId name reg))
       = [Log CommandReceived, SaveGroupData (fst (snd (apexrankremove guildId name reg)))]"
  by (auto simp: apexrankremove_def Let_def split: if_splits property.splits)

lemma apexrankwatch_noEmptyGroups:
  assumes "noEmptyGroups reg" and "plainName name"
  shows "noEmptyGroups (fst (snd (apexrankwatch config guildId name net now reg)))"
proof (cases "getPlayerStats config name net")
  case (Pair res evs)
  have plain: "toLowerCase name \<notin> set inheritedKeys"
    using assms(2) by (simp add: plainName_def)
  show ?thesis
  proof (cases res)
    case (Inl e)
    then show ?thesis using assms(1) Pair by (simp add: apexrankwatch_def Let_def)
  next
    case (Inr pd)
    show ?thesis
    proof (cases "getProp reg (the guildId)")
      case (Own grp)
      show ?thesis
        using assms(1) Pair Inr Own unfolding noEmptyGroups_def
        by (simp add: apexrankwatch_def Let_def list_all_update)
    next
      case Inherited
      then show ?thesis using assms(1) Pair Inr by (simp add: apexrankwatch_def Let_def)
    next
      case Missing
      show ?thesis
        using assms(1) Pair Inr Missing plain unfolding noEmptyGroups_def
        by (simp add: apexrankwatch_def Let_def list_all_update getProp_empty)
    qed
  qed
qed

lemma checkPlayer_noEmptyGroups:
  assumes "noEmptyGroups reg"
  shows "noEmptyGroups (fst (checkPlayer config m gid playerKey reg))"
proof (cases "map_of reg gid")
  case None
  then show ?thesis using assms by (simp add: checkPlayer_def)
next
  case (Some grp)
  show ?thesis
  proof (cases "map_of (players grp) playerKey")
    case None
    then show ?thesis using assms Some by (simp add: checkPlayer_def)
  next
    case player: (Some player)
    show ?thesis
    proof (cases "getPlayerStats config (playerName player) (reqs m)")
      case (Pair res evs)
      show ?thesis
      proof (cases res)
        case (Inl e)
        then show ?thesis using assms Some player Pair by (simp add: checkPlayer_def)
      next
        case (Inr pd)
        show ?thesis
          using assms Some player Pair Inr unfolding noEmptyGroups_def
          by (simp add: checkPlayer_def Let_def list_all_update)
      qed
    qed
  qed
qed

lemma checkAll_noEmptyGroups:
  "noEmptyGroups reg \<Longrightarrow> noEmptyGroups (fst (checkAll config world ts reg))"
proof (induction ts arbitrary: reg)
  case Nil
  then show ?case by simp
next
  case (Cons t ts)
  obtain gid playerKey where t: "t = (gid, playerKey)" by (cases t)
  have "noEmptyGroups (fst (checkPlayer config (world gid playerKey) gid playerKey reg))"
    using Cons.prems by (rule checkPlayer_noEmptyGroups)
  from Cons.IH[OF this] show ?case
    by (simp add: t split_def Let_def)
qed

text \<open>
  Apart from the names a plain object inherits, the registry keeps the invariant: a
  history whose adds are all for other names never leaves a group without players.
\<close>

lemma plain_histories_keep_groups:
  "plainAdds ops \<Longrightarrow> noEmptyGroups reg \<Longrightarrow> noEmptyGroups (run config ops reg)"
  unfolding run_def
proof (induction ops arbitrary: reg)
  case Nil
  then show ?case by simp
next
  case (Cons operation ops)
  have "plainAdds ops \<and> noEmptyGroups (applyOperation config operation reg)"
    using Cons.prems
    by (cases operation)
       (simp_all add: apexrankwatch_noEmptyGroups apexrankremove_noEmptyGroups
          checkAll_noEmptyGroups reconcile_def)
  then show ?case using Cons.IH by simp
qed

lemma answering_stats:
  "getPlayerStats defaultConfig name (answering data)
     = (Inr (buildPlayerStats data), [HttpGet name])"
  by (simp add: getPlayerStats_def apiRequestWithRetry_def retryLoop.simps answering_def defaultConfig_def)

lemma constructor_add:
  "apexrankwatch defaultConfig (Some (ascii ''g1'')) (ascii ''constructor'')
     (answering (samplePayload 10000 1 (ascii ''Online''))) 1000 []
   = (AlreadyWatching (ascii ''constructor''),
      [(ascii ''g1'', \<lparr>groupId = ascii ''g1'', players = []\<rparr>)],
      [Log CommandReceived, HttpGet (ascii ''constructor'')])"
proof -
  have n: "ascii ''constructor'' \<noteq> []" "ascii ''g1'' \<noteq> []" by (simp_all add: ascii_def)
  have l: "toLowerCase (ascii ''constructor'') = ascii ''constructor''"
    by (simp add: toLowerCase_def lowerUnit_def ascii_def)
  have b: "\<not> isBlacklisted (ascii ''constructor'') (blacklist defaultConfig)"
    by (simp add: isBlacklisted_def defaultConfig_def)
  have m: "minValidScore defaultConfig = 1" by (simp add: defaultConfig_def)
  have g: "getProp ([] :: registry) (ascii ''g1'') = Missing"
    "getProp ([] :: (jsstring \<times> PlayerData) list) (ascii ''constructor'') = Inherited"
    by (simp_all add: getProp_empty plain_moeneri) (simp add: inheritedKeys_def)
  show ?thesis
    unfolding apexrankwatch_def
    by (simp add: n l b m g answering_stats sample_score Let_def)
qed

lemma constructor_then_moeneri:
  "apexrankwatch defaultConfig (Some (ascii ''g2'')) (ascii ''moeneri'')
     (answering (samplePayload 10000 1 (ascii ''Online''))) 1000
     [(ascii ''g1'', \<lparr>groupId = ascii ''g1'', players = []\<rparr>)]
   = (WatchAdded (ascii ''moeneri'') (RankWithDiv [0x9EC4, 0x91D1] 2) 10000,
      [(ascii ''g1'', \<lparr>groupId = ascii ''g1'', players = []\<rparr>),
       (ascii ''g2'', \<lparr>groupId = ascii ''g2'', players = [(ascii ''moeneri'', samplePlayer)]\<rparr>)],
      [Log CommandReceived, HttpGet (ascii ''moeneri''),
       SaveGroupData
         [(ascii ''g1'', \<lparr>groupId = ascii ''g1'', players = []\<rparr>),
          (ascii ''g2'', \<lparr>groupId = ascii ''g2'', players = [(ascii ''moeneri'', samplePlayer)]\<rparr>)],
       SendGroupMessage (ascii ''g2'') [WatchAddedNotice (ascii ''moeneri'')]])"
proof -
  have n: "ascii ''moeneri'' \<noteq> []" "ascii ''g2'' \<noteq> []" "ascii ''g1'' \<noteq> ascii ''g2''"
    by (simp_all add: ascii_def)
  have l: "toLowerCase (ascii ''moeneri'') = ascii ''moeneri''"
    by (simp add: toLowerCase_def lowerUnit_def ascii_def)
  have b: "\<not> isBlacklisted (ascii ''moeneri'') (blacklist defaultConfig)"
    by (simp add: isBlacklisted_def defaultConfig_def)
  have m: "minValidScore defaultConfig = 1" by (simp add: defaultConfig_def)
  have p: "newPlayerData (ascii ''moeneri'')
             (buildPlayerStats (samplePayload 10000 1 (ascii ''Online''))) 1000 = samplePlayer"
    by (simp add: newPlayerData_def buildPlayerStats_def samplePayload_def samplePlayer_def Let_def
          extractTime_id orString_def orNumber_def translate_def nameMap_def getLegendRank_def
          legendRankMap_def ascii_def txtUnknown_def)
  have s: "st_rankScore (buildPlayerStats (samplePayload 10000 1 (ascii ''Online''))) = 10000"
    "st_rankName (buildPlayerStats (samplePayload 10000 1 (ascii ''Online''))) = [0x9EC4, 0x91D1]"
    "st_rankDiv (buildPlayerStats (samplePayload 10000 1 (ascii ''Online''))) = 2"
    by (simp_all add: buildPlayerStats_def samplePayload_def Let_def split_def orString_def
          orNumber_def translate_def nameMap_def ascii_def)
  have g: "getProp [(ascii ''g1'', \<lparr>groupId = ascii ''g1'', players = []\<rparr>)] (ascii ''g2'') = Missing"
    "getProp ([] :: (jsstring \<times> PlayerData) list) (ascii ''moeneri'') = Missing"
    using n(3) by (simp_all add: getProp_plain plain_moeneri)
  show ?thesis
    unfolding apexrankwatch_def
    using n(3) by (simp add: n(1,2) l b m p s g answering_stats Let_def rankDisplayOf_def)
qed

lemma moeneri_removed:
  "apexrankremove (Some (ascii ''g2'')) (ascii ''moeneri'')
     [(ascii ''g1'', \<lparr>groupId = ascii ''g1'', players = []\<rparr>),
      (ascii ''g2'', \<lparr>groupId = ascii ''g2'', players = [(ascii ''moeneri'', samplePlayer)]\<rparr>)]
   = (WatchRemoved (ascii ''moeneri''),
      [(ascii ''g1'', \<lparr>groupId = ascii ''g1'', players = []\<rparr>)],
      [Log CommandReceived,
       SaveGroupData [(ascii ''g1'', \<lparr>groupId = ascii ''g1'', players = []\<rparr>)]])"
proof -
  have n: "ascii ''moeneri'' \<noteq> []" "ascii ''g2'' \<noteq> []" "ascii ''g1'' \<noteq> ascii ''g2''"
    by (simp_all add: ascii_def)
  have l: "toLowerCase (ascii ''moeneri'') = ascii ''moeneri''"
    by (simp add: toLowerCase_def lowerUnit_def ascii_def)
  have m: "map_of [(ascii ''g1'', \<lparr>groupId = ascii ''g1'', players = []\<rparr>),
                   (ascii ''g2'', \<lparr>groupId = ascii ''g2'',
                                   players = [(ascii ''moeneri'', samplePlayer)]\<rparr>)] (ascii ''g2'')
             = Some \<lparr>groupId = ascii ''g2'', players = [(ascii ''moeneri'', samplePlayer)]\<rparr>"
    using n(3) by simp
  show ?thesis
    using apexrankremove_last [OF n(2) n(1) m, of samplePlayer] n(3)
    by (simp add: l)
qed

text \<open>
  Claim C7 fails on the code. An add of the name \<open>constructor\<close> to a new group stores
  the group without players and then answers that the player is already tracked, as
  the test of \<open>players[playerKey]\<close> finds the inherited property. The group stays:
  after a remove in another group the registry still has the group without players,
  and that registry is what the remove writes.
\<close>

theorem empty_group_persists:
  "fst (apexrankwatch defaultConfig (Some (ascii ''g1'')) (ascii ''constructor'')
          (answering (samplePayload 10000 1 (ascii ''Online''))) 1000 [])
     = AlreadyWatching (ascii ''constructor'')
   \<and> run defaultConfig constructorHistory []
     = [(ascii ''g1'', \<lparr>groupId = ascii ''g1'', players = []\<rparr>)]
   \<and> \<not> noEmptyGroups (run defaultConfig constructorHistory [])
   \<and> fst (apexrankremove (Some (ascii ''g2'')) (ascii ''moeneri'')
            (run defaultConfig (take 2 constructorHistory) []))
     = WatchRemoved (ascii ''moeneri'')
   \<and> savesOf (snd (snd (apexrankremove (Some (ascii ''g2'')) (ascii ''moeneri'')
                          (run defaultConfig (take 2 constructorHistory) []))))
     = [[(ascii ''g1'', \<lparr>groupId = ascii ''g1'', players = []\<rparr>)]]"
  by (simp add: run_def constructorHistory_def constructor_add constructor_then_moeneri
        moeneri_removed noEmptyGroups_def)

section \<open>Adding twice, and a failed fetch within a pass\<close>

lemma isBlacklisted_lower:
  "toLowerCase a = toLowerCase b \<Longrightarrow> isBlacklisted a entries = isBlacklisted b entries"
  by (simp add: isBlacklisted_def)

lemma toLowerCase_same_empty: "toLowerCase a = toLowerCase b \<Longrightarrow> (a = []) = (b = [])"
  by (metis toLowerCase_def map_is_Nil_conv)

lemma filter_update_fresh:
  "map_of al k = None \<Longrightarrow>
     filter (\<lambda>(k', v'). k' = k) (AList.update k v al) = [(k, v)]"
  by (induction al) (auto split: if_splits)

lemma apexrankwatch_fresh:
  assumes "name \<noteq> []" and "gid \<noteq> []" and "\<not> isBlacklisted name (blacklist config)"
    and "getPlayerStats config name net = (Inr stats, evs)"
    and "minValidScore config \<le> st_rankScore stats"
    and "storedPlayer reg gid (toLowerCase name) = None"
    and "plainName name" and "gid \<notin> set inheritedKeys"
    and "grp = (case map_of reg gid of None \<Rightarrow> \<lparr>groupId = gid, players = []\<rparr> | Some g \<Rightarrow> g)"
    and "reg2 = AList.update gid
                  (grp\<lparr>players := AList.update (toLowerCase name) (newPlayerData name stats now)
                                      (players grp)\<rparr>) reg"
  shows "apexrankwatch config (Some gid) name net now reg =
           (WatchAdded name (rankDisplayOf (st_rankName stats) (st_rankDiv stats))
              (st_rankScore stats),
            reg2,
            [Log CommandReceived] @ evs
            @ [SaveGroupData reg2, SendGroupMessage gid [WatchAddedNotice name]])"
proof -
  have plain: "toLowerCase name \<notin> set inheritedKeys"
    using assms(7) by (simp add: plainName_def)
  have fresh: "getProp (players grp) (toLowerCase name) = Missing"
    using assms(6,9) plain by (auto simp: storedPlayer_def getProp_plain split: option.splits)
  have low: "\<not> st_rankScore stats < minValidScore config" using assms(5) by simp
  show ?thesis
  proof (cases "map_of reg gid")
    case None
    then have g: "getProp reg gid = Missing" using assms(8) by (simp add: getProp_plain)
    show ?thesis
      unfolding apexrankwatch_def
      using assms(1-4) low fresh None assms(9,10)
      by (simp add: g Let_def)
  next
    case (Some g0)
    then have g: "getProp reg gid = Own g0" by (simp add: getProp_Own)
    show ?thesis
      unfolding apexrankwatch_def
      using assms(1-4) low fresh Some assms(9,10)
      by (simp add: g Let_def)
  qed
qed

lemma apexrankwatch_tracked:
  assumes "name \<noteq> []" and "gid \<noteq> []" and "\<not> isBlacklisted name (blacklist config)"
    and "getPlayerStats config name net = (Inr stats, evs)"
    and "minValidScore config \<le> st_rankScore stats"
    and "storedPlayer reg gid (toLowerCase name) = Some player"
  shows "apexrankwatch config (Some gid) name net now reg =
           (AlreadyWatching name, reg, [Log CommandReceived] @ evs)"
proof -
  obtain grp where g: "map_of reg gid = Some grp" "map_of (players grp) (toLowerCase name) = Some player"
    using assms(6) by (auto simp: storedPlayer_def split: option.splits)
  have p: "getProp reg gid = Own grp" "getProp (players grp) (toLowerCase name) = Own player"
    using g by (simp_all add: getProp_Own)
  have low: "\<not> st_rankScore stats < minValidScore config" using assms(5) by simp
  show ?thesis
    unfolding apexrankwatch_def
    using assms(1-4) low
    by (simp add: p Let_def)
qed

text \<open>
  For a name and a group that are not among the inherited names, two adds in a row
  behave as the specification says: the first succeeds, the second, under any spelling
  that agrees with the first in lower case, answers that the player is already tracked
  and leaves the registry as it was, with one entry under the lower-cased name.
\<close>

lemma add_twice_plain:
  assumes "name \<noteq> []" and "gid \<noteq> []" and "\<not> isBlacklisted name (blacklist config)"
    and "getPlayerStats config name net1 = (Inr stats1, evs1)"
    and "minValidScore config \<le> st_rankScore stats1"
    and "toLowerCase name2 = toLowerCase name"
    and "getPlayerStats config name2 net2 = (Inr stats2, evs2)"
    and "minValidScore config \<le> st_rankScore stats2"
    and "storedPlayer reg gid (toLowerCase name) = None"
    and "plainName name" and "gid \<notin> set inheritedKeys"
  shows "let first = apexrankwatch config (Some gid) name net1 now1 reg;
             second = apexrankwatch config (Some gid) name2 net2 now2 (fst (snd first))
         in fst first = WatchAdded name (rankDisplayOf (st_rankName stats1) (st_rankDiv stats1))
                          (st_rankScore stats1)
          \<and> fst second = AlreadyWatching name2
          \<and> fst (snd second) = fst (snd first)
          \<and> (\<exists>grp. map_of (fst (snd second)) gid = Some grp
                \<and> filter (\<lambda>(playerKey, player). playerKey = toLowerCase name) (players grp)
                    = [(toLowerCase name, newPlayerData name stats1 now1)])"
proof -
  define grp where "grp = (case map_of reg gid of None \<Rightarrow> \<lparr>groupId = gid, players = []\<rparr> | Some g \<Rightarrow> g)"
  define grp' where "grp' = grp\<lparr>players := AList.update (toLowerCase name)
                                    (newPlayerData name stats1 now1) (players grp)\<rparr>"
  define reg2 where "reg2 = AList.update gid grp' reg"
  have fresh: "map_of (players grp) (toLowerCase name) = None"
    using assms(9) by (auto simp: grp_def storedPlayer_def split: option.splits)
  have first: "apexrankwatch config (Some gid) name net1 now1 reg =
           (WatchAdded name (rankDisplayOf (st_rankName stats1) (st_rankDiv stats1))
              (st_rankScore stats1),
            reg2,
            [Log CommandReceived] @ evs1
            @ [SaveGroupData reg2, SendGroupMessage gid [WatchAddedNotice name]])"
    using apexrankwatch_fresh[OF assms(1-5) assms(9-11) grp_def]
    by (simp add: reg2_def grp'_def)
  have look: "map_of reg2 gid = Some grp'"
    by (simp add: reg2_def update_conv')
  have stored: "storedPlayer reg2 gid (toLowerCase name2) = Some (newPlayerData name stats1 now1)"
    by (simp add: storedPlayer_def look grp'_def update_conv' assms(6))
  have n2: "name2 \<noteq> []"
    using toLowerCase_same_empty[OF assms(6)] assms(1) by simp
  have b2: "\<not> isBlacklisted name2 (blacklist config)"
    using isBlacklisted_lower[OF assms(6)] assms(3) by simp
  have second: "apexrankwatch config (Some gid) name2 net2 now2 reg2 =
           (AlreadyWatching name2, reg2, [Log CommandReceived] @ evs2)"
    using apexrankwatch_tracked[OF n2 assms(2) b2 assms(7,8) stored] .
  have one: "filter (\<lambda>(playerKey, player). playerKey = toLowerCase name) (players grp')
               = [(toLowerCase name, newPlayerData name stats1 now1)]"
    by (simp add: grp'_def filter_update_fresh[OF fresh])
  show ?thesis
    unfolding Let_def first fst_conv snd_conv second
    using look one by simp
qed

text \<open>
  Claim C8 fails on the code. On the empty registry the first add of the name
  \<open>constructor\<close>, with a fetch that succeeds and a valid score, answers that the
  player is already tracked: the test of \<open>players[playerKey]\<close> finds the inherited
  property. Nothing is stored under the name and nothing is written, and the group
  stays in the registry without players. The claim asks for success on the first add
  and one entry under the lower-cased name.
\<close>

theorem first_add_of_inherited_name_rejected:
  "fst (apexrankwatch defaultConfig (Some (ascii ''g1'')) (ascii ''constructor'')
          (answering (samplePayload 10000 1 (ascii ''Online''))) 1000 [])
     = AlreadyWatching (ascii ''constructor'')
   \<and> storedPlayer
        (fst (snd (apexrankwatch defaultConfig (Some (ascii ''g1'')) (ascii ''constructor'')
                     (answering (samplePayload 10000 1 (ascii ''Online''))) 1000 [])))
        (ascii ''g1'') (toLowerCase (ascii ''constructor'')) = None
   \<and> savesOf (snd (snd (apexrankwatch defaultConfig (Some (ascii ''g1'')) (ascii ''constructor'')
                          (answering (samplePayload 10000 1 (ascii ''Online''))) 1000 [])))
     = []
   \<and> map_of (fst (snd (apexrankwatch defaultConfig (Some (ascii ''g1'')) (ascii ''constructor'')
                          (answering (samplePayload 10000 1 (ascii ''Online''))) 1000 [])))
        (ascii ''g1'')
     = Some \<lparr>groupId = ascii ''g1'', players = []\<rparr>"
  by (simp add: constructor_add storedPlayer_def)

lemma checkPlayer_failed:
  assumes "storedPlayer reg gid playerKey = Some player"
    and "\<not> isBlacklisted (playerName player) (blacklist config)"
    and "getPlayerStats config (playerName player) (reqs m) = (Inl err, evs)"
  shows "checkPlayer config m gid playerKey reg
           = (reg, evs @ [Log (CheckFailed (playerName player))])"
proof -
  obtain grp where "map_of reg gid = Some grp" "map_of (players grp) playerKey = Some player"
    using assms(1) by (auto simp: storedPlayer_def split: option.splits)
  then show ?thesis
    using assms(2,3) by (simp add: checkPlayer_def)
qed

lemma checkAll_append:
  "checkAll config world (xs @ ys) reg =
     (fst (checkAll config world ys (fst (checkAll config world xs reg))),
      snd (checkAll config world xs reg)
      @ snd (checkAll config world ys (fst (checkAll config world xs reg))))"
proof (induction xs arbitrary: reg)
  case Nil
  then show ?case by simp
next
  case (Cons t xs)
  obtain gid playerKey where t: "t = (gid, playerKey)" by (cases t)
  show ?case
    by (simp add: t split_def Let_def Cons.IH)
qed

lemma checkPlayer_result:
  "fst (checkPlayer config m gid playerKey reg) = reg
   \<or> (\<exists>grp player updated. map_of reg gid = Some grp \<and> map_of (players grp) playerKey = Some player
        \<and> playerName updated = playerName player
        \<and> fst (checkPlayer config m gid playerKey reg)
            = AList.update gid (grp\<lparr>players := AList.update playerKey updated (players grp)\<rparr>) reg)"
proof (cases "map_of reg gid")
  case None
  then show ?thesis by (simp add: checkPlayer_def)
next
  case (Some grp)
  show ?thesis
  proof (cases "map_of (players grp) playerKey")
    case None
    then show ?thesis using Some by (simp add: checkPlayer_def)
  next
    case player: (Some player)
    show ?thesis
    proof (cases "getPlayerStats config (playerName player) (reqs m)")
      case (Pair res evs)
      show ?thesis
      proof (cases res)
        case (Inl e)
        then show ?thesis using Some player Pair by (simp add: checkPlayer_def)
      next
        case (Inr stats)
        let ?updated = "player\<lparr>rankScore := st_rankScore stats,
                                  rankName := st_rankName stats,
                                  rankDiv := st_rankDiv stats,
                                  globalRankPercent := Some (st_globalRankPercent stats),
                                  selectedLegend := Some (st_selectedLegend stats),
                                  legendRank := Some (st_legendRank stats),
                                  lastChecked := clock m\<rparr>"
        have n: "playerName ?updated = playerName player" by simp
        show ?thesis
          using Some player Pair Inr n
          by (auto simp: checkPlayer_def Let_def simp del: PlayerData.simps intro!: exI[of _ ?updated])
      qed
    qed
  qed
qed

lemma checkPlayer_keeps_name:
  assumes "storedPlayer reg g k = Some p"
  shows "\<exists>p'. storedPlayer (fst (checkPlayer config m gid playerKey reg)) g k = Some p'
              \<and> playerName p' = playerName p"
  using checkPlayer_result[of config m gid playerKey reg]
proof
  assume "fst (checkPlayer config m gid playerKey reg) = reg"
  then show ?thesis using assms by simp
next
  assume "\<exists>grp player updated. map_of reg gid = Some grp \<and> map_of (players grp) playerKey = Some player
        \<and> playerName updated = playerName player
        \<and> fst (checkPlayer config m gid playerKey reg)
            = AList.update gid (grp\<lparr>players := AList.update playerKey updated (players grp)\<rparr>) reg"
  then obtain grp player updated where
    h: "map_of reg gid = Some grp" "map_of (players grp) playerKey = Some player"
       "playerName updated = playerName player"
       "fst (checkPlayer config m gid playerKey reg)
            = AList.update gid (grp\<lparr>players := AList.update playerKey updated (players grp)\<rparr>) reg"
    by blast
  show ?thesis
    using assms h(1,2,3) unfolding h(4)
    by (auto simp: storedPlayer_def update_conv' split: option.splits)
qed

lemma checkAll_keeps_name:
  "storedPlayer reg g k = Some p \<Longrightarrow>
     \<exists>p'. storedPlayer (fst (checkAll config world ts reg)) g k = Some p'
          \<and> playerName p' = playerName p"
proof (induction ts arbitrary: reg p)
  case Nil
  then show ?case by simp
next
  case (Cons t ts)
  obtain gid playerKey where t: "t = (gid, playerKey)" by (cases t)
  obtain p1 where p1: "storedPlayer (fst (checkPlayer config (world gid playerKey) gid playerKey reg)) g k = Some p1"
      "playerName p1 = playerName p"
    using checkPlayer_keeps_name[OF Cons.prems] by blast
  from Cons.IH[OF p1(1)] p1(2) show ?case
    by (simp add: t split_def Let_def)
qed

text \<open>
  Claim C9. In a pass of the reconciliation, let the fetch fail for one tracked player.
  His step logs the failure and leaves the registry, and so his snapshot, as it was;
  the pass goes on with the players after him from that same registry, its trace being
  the trace of the players before him, the events of the failed fetch with the log
  entry, and the trace of the players after him; and the registry the pass ends with
  is the one a pass over the other players alone ends with.
\<close>

theorem fetch_failure_isolated:
  assumes "targets reg = before @ (gid, playerKey) # after"
    and "storedPlayer reg gid playerKey = Some player"
    and "\<not> isBlacklisted (playerName player) (blacklist config)"
    and "getPlayerStats config (playerName player) (reqs (world gid playerKey)) = (Inl err, evs)"
  shows "let reg1 = fst (checkAll config world before reg);
             evs1 = snd (checkAll config world before reg);
             reg2 = fst (checkAll config world after reg1);
             evs2 = snd (checkAll config world after reg1)
         in checkPlayer config (world gid playerKey) gid playerKey reg1
              = (reg1, evs @ [Log (CheckFailed (playerName player))])
          \<and> reconcile config world reg
              = (reg2, evs1 @ evs @ [Log (CheckFailed (playerName player))] @ evs2)
          \<and> fst (reconcile config world reg) = fst (checkAll config world (before @ after) reg)"
proof -
  define reg1 where "reg1 = fst (checkAll config world before reg)"
  obtain p' where p': "storedPlayer reg1 gid playerKey = Some p'" "playerName p' = playerName player"
    using checkAll_keeps_name[OF assms(2)] unfolding reg1_def by blast
  have step: "checkPlayer config (world gid playerKey) gid playerKey reg1
                = (reg1, evs @ [Log (CheckFailed (playerName player))])"
    using checkPlayer_failed[OF p'(1), of config "world gid playerKey" err evs] assms(3,4) p'(2)
    by simp
  have whole: "reconcile config world reg =
      (fst (checkAll config world after reg1),
       snd (checkAll config world before reg) @ evs @ [Log (CheckFailed (playerName player))]
       @ snd (checkAll config world after reg1))"
    unfolding reconcile_def assms(1) checkAll_append[of config world before "(gid, playerKey) # after" reg]
    by (simp add: reg1_def[symmetric] step split_def Let_def)
  have skip: "fst (checkAll config world (before @ after) reg) = fst (checkAll config world after reg1)"
    by (simp add: checkAll_append reg1_def)
  show ?thesis
    unfolding Let_def reg1_def[symmetric]
    using step whole skip by simp
qed

text \<open>Adding \<open>Moeneri\<close> and then \<open>MOENERI\<close> to the same group.\<close>

lemma add_twice_plain_example:
  "toLowerCase (ascii ''MOENERI'') = toLowerCase (ascii ''Moeneri'')
   \<and> storedPlayer [] (ascii ''g1'') (toLowerCase (ascii ''Moeneri'')) = None
   \<and> fst (apexrankwatch defaultConfig (Some (ascii ''g1'')) (ascii ''Moeneri'')
             (answering (samplePayload 10000 1 (ascii ''Online''))) 1000 [])
       = WatchAdded (ascii ''Moeneri'') (RankWithDiv [0x9EC4, 0x91D1] 2) 10000
   \<and> fst (apexrankwatch defaultConfig (Some (ascii ''g1'')) (ascii ''MOENERI'')
             (answering (samplePayload 9000 1 (ascii ''Online''))) 2000
             (fst (snd (apexrankwatch defaultConfig (Some (ascii ''g1'')) (ascii ''Moeneri'')
                          (answering (samplePayload 10000 1 (ascii ''Online''))) 1000 []))))
       = AlreadyWatching (ascii ''MOENERI'')
   \<and> fst (snd (apexrankwatch defaultConfig (Some (ascii ''g1'')) (ascii ''MOENERI'')
             (answering (samplePayload 9000 1 (ascii ''Online''))) 2000
             (fst (snd (apexrankwatch defaultConfig (Some (ascii ''g1'')) (ascii ''Moeneri'')
                          (answering (samplePayload 10000 1 (ascii ''Online''))) 1000 [])))))
       = fst (snd (apexrankwatch defaultConfig (Some (ascii ''g1'')) (ascii ''Moeneri'')
                          (answering (samplePayload 10000 1 (ascii ''Online''))) 1000 []))"
proof -
  have n: "ascii ''Moeneri'' \<noteq> []" "ascii ''g1'' \<noteq> []" by (simp_all add: ascii_def)
  have l: "toLowerCase (ascii ''MOENERI'') = toLowerCase (ascii ''Moeneri'')"
    by (simp add: toLowerCase_def lowerUnit_def ascii_def)
  have b: "\<not> isBlacklisted (ascii ''Moeneri'') (blacklist defaultConfig)"
    by (simp add: isBlacklisted_def defaultConfig_def)
  have m: "minValidScore defaultConfig \<le> st_rankScore (buildPlayerStats (samplePayload 10000 1 (ascii ''Online'')))"
    "minValidScore defaultConfig \<le> st_rankScore (buildPlayerStats (samplePayload 9000 1 (ascii ''Online'')))"
    by (simp_all add: sample_score defaultConfig_def)
  have e: "storedPlayer [] (ascii ''g1'') (toLowerCase (ascii ''Moeneri'')) = None"
    by (simp add: storedPlayer_def)
  have pl: "plainName (ascii ''Moeneri'')"
    by (simp add: plainName_def toLowerCase_def lowerUnit_def inheritedKeys_def ascii_def)
  have s: "st_rankScore (buildPlayerStats (samplePayload 10000 1 (ascii ''Online''))) = 10000"
    "st_rankName (buildPlayerStats (samplePayload 10000 1 (ascii ''Online''))) = [0x9EC4, 0x91D1]"
    "st_rankDiv (buildPlayerStats (samplePayload 10000 1 (ascii ''Online''))) = 2"
    by (simp_all add: buildPlayerStats_def samplePayload_def Let_def split_def orString_def
          orNumber_def translate_def nameMap_def ascii_def)
  show ?thesis
    using add_twice_plain [OF n b answering_stats m(1) l answering_stats m(2) e pl plain_moeneri(2),
            of 1000 2000] l e
    by (simp add: Let_def s rankDisplayOf_def)
qed

lemma outage_fetch:
  "getPlayerStats defaultConfig (ascii ''moeneri'') (\<lambda>i. Failed notFound)
     = (Inl GetPlayerDataFailed, [HttpGet (ascii ''moeneri''), Log ApiRequestFailed])"
  by (simp add: getPlayerStats_def apiRequestWithRetry_def retryLoop.simps defaultConfig_def
        notRetriable_notFound)

text \<open>
  Two tracked players: the fetch of the first meets a 404, the second drops from 9000
  to 8500. The first keeps his snapshot and the second is updated.
\<close>

theorem fetch_failure_isolated_witness:
  "targets twoPlayers = [] @ (ascii ''g1'', ascii ''moeneri'') # [(ascii ''g1'', ascii ''rival'')]
   \<and> storedPlayer twoPlayers (ascii ''g1'') (ascii ''moeneri'') = Some samplePlayer
   \<and> fst (reconcile defaultConfig outage twoPlayers)
       = fst (checkAll defaultConfig outage [(ascii ''g1'', ascii ''rival'')] twoPlayers)
   \<and> snd (reconcile defaultConfig outage twoPlayers)
       = [HttpGet (ascii ''moeneri''), Log ApiRequestFailed, Log (CheckFailed (ascii ''moeneri''))]
         @ snd (checkAll defaultConfig outage [(ascii ''g1'', ascii ''rival'')] twoPlayers)
   \<and> storedPlayer (fst (reconcile defaultConfig outage twoPlayers)) (ascii ''g1'') (ascii ''moeneri'')
       = Some samplePlayer
   \<and> map_option rankScore
        (storedPlayer (fst (reconcile defaultConfig outage twoPlayers)) (ascii ''g1'') (ascii ''rival''))
       = Some 8500"
proof -
  have r: "map_of twoPlayers (ascii ''g1'')
             = Some \<lparr>groupId = ascii ''g1'',
                      players = [(ascii ''moeneri'', samplePlayer), (ascii ''rival'', rivalPlayer)]\<rparr>"
    "map_of (players \<lparr>groupId = ascii ''g1'',
                      players = [(ascii ''moeneri'', samplePlayer), (ascii ''rival'', rivalPlayer)]\<rparr>)
        (ascii ''rival'') = Some rivalPlayer"
    "\<not> isBlacklisted (playerName rivalPlayer) (blacklist defaultConfig)"
    "getPlayerStats defaultConfig (playerName rivalPlayer)
       (reqs (outage (ascii ''g1'') (ascii ''rival'')))
     = (Inr (buildPlayerStats (samplePayload 8500 1 (ascii ''Online''))),
        [HttpGet (playerName rivalPlayer)])"
    by (simp_all add: twoPlayers_def ascii_def isBlacklisted_def defaultConfig_def outage_def
          sampleMoment_def answering_stats[unfolded defaultConfig_def])
  have c: "classify (rankScore rivalPlayer)
             (st_rankScore (buildPlayerStats (samplePayload 8500 1 (ascii ''Online''))))
             (minValidScore defaultConfig) (maxScoreDropThreshold defaultConfig) = Changed"
    by (simp add: sample_score classify_def rivalPlayer_def defaultConfig_def)
  have k: "ascii ''moeneri'' \<noteq> ascii ''rival''" by (simp add: ascii_def)
  have after: "storedPlayer
                 (fst (checkAll defaultConfig outage [(ascii ''g1'', ascii ''rival'')] twoPlayers))
                 (ascii ''g1'') (ascii ''moeneri'') = Some samplePlayer"
      "map_option rankScore
         (storedPlayer
            (fst (checkAll defaultConfig outage [(ascii ''g1'', ascii ''rival'')] twoPlayers))
            (ascii ''g1'') (ascii ''rival'')) = Some 8500"
    using k
    by (simp_all add: split_def checkPlayer_changed [OF r c refl refl] storedPlayer_def
          update_conv' sample_score)
  have t: "targets twoPlayers = [] @ (ascii ''g1'', ascii ''moeneri'') # [(ascii ''g1'', ascii ''rival'')]"
    by (simp add: targets_def twoPlayers_def)
  have s: "storedPlayer twoPlayers (ascii ''g1'') (ascii ''moeneri'') = Some samplePlayer"
    by (simp add: storedPlayer_def twoPlayers_def)
  have f: "getPlayerStats defaultConfig (playerName samplePlayer)
             (reqs (outage (ascii ''g1'') (ascii ''moeneri'')))
           = (Inl GetPlayerDataFailed, [HttpGet (ascii ''moeneri''), Log ApiRequestFailed])"
    by (simp add: outage_def samplePlayer_def outage_fetch)
  have p: "playerName samplePlayer = ascii ''moeneri''" by (simp add: samplePlayer_def)
  show ?thesis
    using fetch_failure_isolated
            [where reg = twoPlayers and before = "[]" and gid = "ascii ''g1''"
               and playerKey = "ascii ''moeneri''" and after = "[(ascii ''g1'', ascii ''rival'')]"
               and player = samplePlayer and config = defaultConfig and world = outage,
             OF t s sample_tracked(3) f] t s after
    by (simp add: Let_def p)
qed

end
